theory Spec2Isabelle
  imports Main
begin

section \<open>Python values\<close>

text \<open>
  A \<open>bytes\<close> object is a list of 8-bit characters, so a literal such as
  \<open>b"abc"\<close> is written \<open>''abc''\<close>. A \<open>str\<close> is a list of Unicode code points.
  Integers are unbounded (\<open>int\<close>); lengths and indices that cannot be negative are \<open>nat\<close>.
\<close>

type_synonym bytes = "char list"
type_synonym str = "nat list"

text \<open>
  The exceptions that the modelled code can raise. \<open>ValueError\<close> carries its
  message, because \<open>parse_chunk\<close> composes one; the wording of the others belongs to
  the interpreter and its libraries.
\<close>

datatype exn =
    StructError
  | ValueError str
  | ZlibError
  | AttributeError
  | UnicodeDecodeError
  | UnicodeEncodeError
  | IndexError
  | OSError

text \<open>A \<open>str\<close> literal made of ASCII characters.\<close>

definition ascii :: "string \<Rightarrow> str" where
  "ascii s = map of_char s"

text \<open>\<open>xs[i:j]\<close> for \<open>0 \<le> i \<le> j\<close>: Python clamps both ends to the length.\<close>

definition slice :: "'a list \<Rightarrow> nat \<Rightarrow> nat \<Rightarrow> 'a list" where
  "slice xs i j = take (j - i) (drop i xs)"

text \<open>\<open>range(start, stop, step)\<close> for a positive step, as the list it iterates over.\<close>

definition py_range :: "nat \<Rightarrow> nat \<Rightarrow> nat \<Rightarrow> nat list" where
  "py_range start stop step =
     map (\<lambda>k. start + k * step) [0 ..< (stop - start + step - 1) div step]"

text \<open>The decimal digits of a non-negative integer, as \<open>str(n)\<close> and an f-string give them.\<close>

fun decimal :: "nat \<Rightarrow> str" where
  "decimal n = (if n < 10 then [48 + n] else decimal (n div 10) @ [48 + n mod 10])"

declare decimal.simps [simp del]

section \<open>The struct module, native mode\<close>

text \<open>
  \<open>struct.pack\<close> and \<open>struct.unpack\<close> with a format string that has no byte-order
  prefix use the platform's sizes, alignment and byte order. The model is the common
  64-bit little-endian platform (x86-64, AArch64): \<open>B\<close> is 1 byte, \<open>I\<close> 4 bytes,
  \<open>q\<close> 8 bytes, each field is aligned to its own size by zero bytes inserted before
  it, and no padding follows the last field. A format is the list of its codes.
\<close>

datatype fmt = Fmt_B | Fmt_I | Fmt_q

fun fmt_size :: "fmt \<Rightarrow> nat" where
  "fmt_size Fmt_B = 1"
| "fmt_size Fmt_I = 4"
| "fmt_size Fmt_q = 8"

definition fmt_pad :: "nat \<Rightarrow> fmt \<Rightarrow> nat" where
  "fmt_pad off f = (fmt_size f - off mod fmt_size f) mod fmt_size f"

fun calcsize_from :: "nat \<Rightarrow> fmt list \<Rightarrow> nat" where
  "calcsize_from off [] = off"
| "calcsize_from off (f # fs) = calcsize_from (off + fmt_pad off f + fmt_size f) fs"

definition calcsize :: "fmt list \<Rightarrow> nat" where
  "calcsize fs = calcsize_from 0 fs"

fun le_bytes :: "nat \<Rightarrow> nat \<Rightarrow> bytes" where
  "le_bytes 0 n = []"
| "le_bytes (Suc k) n = char_of (n mod 256) # le_bytes k (n div 256)"

fun le_nat :: "bytes \<Rightarrow> nat" where
  "le_nat [] = 0"
| "le_nat (b # bs) = of_char b + 256 * le_nat bs"

fun fmt_in_range :: "fmt \<Rightarrow> int \<Rightarrow> bool" where
  "fmt_in_range Fmt_B v = (0 \<le> v \<and> v < 2 ^ 8)"
| "fmt_in_range Fmt_I v = (0 \<le> v \<and> v < 2 ^ 32)"
| "fmt_in_range Fmt_q v = (- (2 ^ 63) \<le> v \<and> v < 2 ^ 63)"

definition fmt_encode :: "fmt \<Rightarrow> int \<Rightarrow> bytes" where
  "fmt_encode f v = le_bytes (fmt_size f) (nat (v mod 2 ^ (8 * fmt_size f)))"

definition fmt_decode :: "fmt \<Rightarrow> bytes \<Rightarrow> int" where
  "fmt_decode f bs =
     (let n = int (le_nat bs)
      in if f = Fmt_q \<and> 2 ^ 63 \<le> n then n - 2 ^ 64 else n)"

fun pack_from :: "nat \<Rightarrow> fmt list \<Rightarrow> int list \<Rightarrow> exn + bytes" where
  "pack_from off [] [] = Inr []"
| "pack_from off (f # fs) (v # vs) =
     (if \<not> fmt_in_range f v then Inl StructError
      else case pack_from (off + fmt_pad off f + fmt_size f) fs vs of
             Inl e \<Rightarrow> Inl e
           | Inr rest \<Rightarrow> Inr (replicate (fmt_pad off f) (CHR 0x00) @ fmt_encode f v @ rest))"
| "pack_from off _ _ = Inl StructError"

definition struct_pack :: "fmt list \<Rightarrow> int list \<Rightarrow> exn + bytes" where
  "struct_pack fs vs = pack_from 0 fs vs"

fun unpack_from :: "nat \<Rightarrow> fmt list \<Rightarrow> bytes \<Rightarrow> int list" where
  "unpack_from off [] buf = []"
| "unpack_from off (f # fs) buf =
     fmt_decode f (slice buf (off + fmt_pad off f) (off + fmt_pad off f + fmt_size f))
       # unpack_from (off + fmt_pad off f + fmt_size f) fs buf"

text \<open>\<open>struct.unpack\<close> raises \<open>struct.error\<close> unless the buffer has exactly the size of the format.\<close>

definition struct_unpack :: "fmt list \<Rightarrow> bytes \<Rightarrow> exn + int list" where
  "struct_unpack fs buf =
     (if length buf \<noteq> calcsize fs then Inl StructError else Inr (unpack_from 0 fs buf))"

section \<open>UTF-8\<close>

text \<open>
  \<open>bytes.decode('utf-8')\<close> and \<open>str.encode('utf-8')\<close> with the default strict error
  handling, on byte values. Decoding accepts exactly the well-formed sequences of the
  Unicode standard (no overlong forms, no surrogates, nothing above U+10FFFF) and raises
  \<open>UnicodeDecodeError\<close> otherwise; encoding raises \<open>UnicodeEncodeError\<close> on a
  surrogate code point.
\<close>

definition utf8_cont :: "nat \<Rightarrow> bool" where
  "utf8_cont b = (0x80 \<le> b \<and> b \<le> 0xBF)"

text \<open>The allowed range of the second byte depends on the lead byte.\<close>

definition utf8_second :: "nat \<Rightarrow> nat \<Rightarrow> bool" where
  "utf8_second b0 b1 =
     (if b0 = 0xE0 then 0xA0 \<le> b1 \<and> b1 \<le> 0xBF
      else if b0 = 0xED then 0x80 \<le> b1 \<and> b1 \<le> 0x9F
      else if b0 = 0xF0 then 0x90 \<le> b1 \<and> b1 \<le> 0xBF
      else if b0 = 0xF4 then 0x80 \<le> b1 \<and> b1 \<le> 0x8F
      else utf8_cont b1)"

fun utf8_decode :: "nat list \<Rightarrow> exn + str" where
  "utf8_decode [] = Inr []"
| "utf8_decode (b0 # bs) =
     (if b0 < 0x80 then
        (case utf8_decode bs of Inl e \<Rightarrow> Inl e | Inr s \<Rightarrow> Inr (b0 # s))
      else if 0xC2 \<le> b0 \<and> b0 \<le> 0xDF then
        (case bs of
           b1 # r \<Rightarrow>
             if utf8_cont b1 then
               (case utf8_decode r of
                  Inl e \<Rightarrow> Inl e
                | Inr s \<Rightarrow> Inr (((b0 - 0xC0) * 64 + (b1 - 0x80)) # s))
             else Inl UnicodeDecodeError
         | _ \<Rightarrow> Inl UnicodeDecodeError)
      else if 0xE0 \<le> b0 \<and> b0 \<le> 0xEF then
        (case bs of
           b1 # b2 # r \<Rightarrow>
             if utf8_second b0 b1 \<and> utf8_cont b2 then
               (case utf8_decode r of
                  Inl e \<Rightarrow> Inl e
                | Inr s \<Rightarrow>
                    Inr (((b0 - 0xE0) * 4096 + (b1 - 0x80) * 64 + (b2 - 0x80)) # s))
             else Inl UnicodeDecodeError
         | _ \<Rightarrow> Inl UnicodeDecodeError)
      else if 0xF0 \<le> b0 \<and> b0 \<le> 0xF4 then
        (case bs of
           b1 # b2 # b3 # r \<Rightarrow>
             if utf8_second b0 b1 \<and> utf8_cont b2 \<and> utf8_cont b3 then
               (case utf8_decode r of
                  Inl e \<Rightarrow> Inl e
                | Inr s \<Rightarrow>
                    Inr (((b0 - 0xF0) * 262144 + (b1 - 0x80) * 4096 + (b2 - 0x80) * 64
                           + (b3 - 0x80)) # s))
             else Inl UnicodeDecodeError
         | _ \<Rightarrow> Inl UnicodeDecodeError)
      else Inl UnicodeDecodeError)"

definition utf8_char :: "nat \<Rightarrow> nat list" where
  "utf8_char c =
     (if c < 0x80 then [c]
      else if c < 0x800 then [0xC0 + c div 64, 0x80 + c mod 64]
      else if c < 0x10000 then [0xE0 + c div 4096, 0x80 + c div 64 mod 64, 0x80 + c mod 64]
      else [0xF0 + c div 262144, 0x80 + c div 4096 mod 64, 0x80 + c div 64 mod 64,
            0x80 + c mod 64])"

text \<open>The code points that have an encoding: all but the surrogates, up to U+10FFFF.\<close>

definition scalar :: "nat \<Rightarrow> bool" where
  "scalar c = (\<not> ((0xD800 \<le> c \<and> c \<le> 0xDFFF) \<or> 0x110000 \<le> c))"

fun utf8_encode :: "str \<Rightarrow> exn + nat list" where
  "utf8_encode [] = Inr []"
| "utf8_encode (c # cs) =
     (if \<not> scalar c then Inl UnicodeEncodeError
      else case utf8_encode cs of
             Inl e \<Rightarrow> Inl e
           | Inr r \<Rightarrow> Inr (utf8_char c @ r))"

definition bytes_decode :: "bytes \<Rightarrow> exn + str" where
  "bytes_decode bs = utf8_decode (map of_char bs)"

definition str_encode :: "str \<Rightarrow> exn + bytes" where
  "str_encode s = (case utf8_encode s of Inl e \<Rightarrow> Inl e | Inr ns \<Rightarrow> Inr (map char_of ns))"

section \<open>os.path and the file system\<close>

text \<open>
  \<open>posixpath.basename\<close> is \<open>p[p.rfind('/') + 1:]\<close>; \<open>posixpath.join\<close> with two
  arguments replaces the first by the second when the second starts with the separator, and
  otherwise concatenates them with one separator between (none after an empty first part or
  one that ends with the separator).
\<close>

definition sep :: nat where
  "sep = 47"

definition py_rfind :: "'a list \<Rightarrow> 'a \<Rightarrow> int" where
  "py_rfind p c =
     (case filter (\<lambda>i. p ! i = c) (rev [0 ..< length p]) of
        [] \<Rightarrow> - 1
      | i # _ \<Rightarrow> int i)"

definition basename :: "str \<Rightarrow> str" where
  "basename p = drop (nat (py_rfind p sep + 1)) p"

definition os_path_join :: "str \<Rightarrow> str \<Rightarrow> str" where
  "os_path_join a b =
     (if b \<noteq> [] \<and> hd b = sep then b
      else if a = [] \<or> last a = sep then a @ b
      else a @ [sep] @ b)"

text \<open>
  The file system maps a path to what is there: a regular file with its bytes, or a
  directory. A path that nothing can be stored under (one with a NUL character, say) has
  no entry, and \<open>os.path.exists\<close> is false for it, as in Python 3.8 and later.
\<close>

datatype node = RegularFile bytes | Directory

type_synonym filesystem = "str \<Rightarrow> node option"

definition os_path_exists :: "filesystem \<Rightarrow> str \<Rightarrow> bool" where
  "os_path_exists fs p = (case fs p of None \<Rightarrow> False | Some _ \<Rightarrow> True)"

definition os_path_isfile :: "filesystem \<Rightarrow> str \<Rightarrow> bool" where
  "os_path_isfile fs p = (case fs p of Some (RegularFile _) \<Rightarrow> True | _ \<Rightarrow> False)"

text \<open>\<open>open(p, 'rb').read()\<close>.\<close>

definition read_file :: "filesystem \<Rightarrow> str \<Rightarrow> exn + bytes" where
  "read_file fs p = (case fs p of Some (RegularFile b) \<Rightarrow> Inr b | _ \<Rightarrow> Inl OSError)"

section \<open>The libraries behind the code\<close>

text \<open>
  The code calls \<open>zlib.compress\<close> and \<open>zlib.decompress\<close> and sends \<open>str(e)\<close> of
  exceptions to the peer. The deflate coding and the wording of library exceptions are
  not part of this repository; they are fields of a runtime that every function using
  them takes as its first argument:
  \<^item> \<open>zlib_compress data level\<close> is \<open>zlib.compress(data, level)\<close>;
  \<^item> \<open>zlib_inflate\<close> decodes a buffer whose zlib stream header is valid;
  \<^item> \<open>exception_text e\<close> is \<open>str(e)\<close> for an exception raised by a library.
\<close>

record runtime =
  zlib_compress :: "bytes \<Rightarrow> int \<Rightarrow> bytes"
  zlib_inflate :: "bytes \<Rightarrow> exn + bytes"
  exception_text :: "exn \<Rightarrow> str"

text \<open>
  The two-byte header of a zlib stream (RFC 1950): compression method 8, window size at
  most 32K, a check value making the header a multiple of 31, and no preset dictionary.
  \<open>zlib.decompress\<close> raises \<open>zlib.error\<close> on a buffer without such a header, also on
  one shorter than the header.
\<close>

definition zlib_header_ok :: "bytes \<Rightarrow> bool" where
  "zlib_header_ok b =
     (case b of
        cmf # flg # _ \<Rightarrow>
          (of_char cmf :: nat) mod 16 = 8 \<and> (of_char cmf :: nat) div 16 \<le> 7 \<and>
          ((of_char cmf :: nat) * 256 + of_char flg) mod 31 = 0 \<and>
          ((of_char flg :: nat) div 32) mod 2 = 0
      | _ \<Rightarrow> False)"

definition zlib_decompress :: "runtime \<Rightarrow> bytes \<Rightarrow> exn + bytes" where
  "zlib_decompress rt b = (if zlib_header_ok b then zlib_inflate rt b else Inl ZlibError)"

definition py_str :: "runtime \<Rightarrow> exn \<Rightarrow> str" where
  "py_str rt e = (case e of ValueError m \<Rightarrow> m | _ \<Rightarrow> exception_text rt e)"

section \<open>protocol.py\<close>

subsection \<open>Enumerations\<close>

definition ProtocolVersion_MAJOR :: nat where "ProtocolVersion_MAJOR = 1"
definition ProtocolVersion_MINOR :: nat where "ProtocolVersion_MINOR = 0"
definition ProtocolVersion_PATCH :: nat where "ProtocolVersion_PATCH = 0"

definition get_version :: str where
  "get_version = decimal ProtocolVersion_MAJOR @ ascii ''.'' @ decimal ProtocolVersion_MINOR
                   @ ascii ''.'' @ decimal ProtocolVersion_PATCH"

datatype ChunkSize = SMALL | MEDIUM | LARGE | XLARGE

fun ChunkSize_value :: "ChunkSize \<Rightarrow> nat" where
  "ChunkSize_value SMALL = 1024"
| "ChunkSize_value MEDIUM = 4096"
| "ChunkSize_value LARGE = 16384"
| "ChunkSize_value XLARGE = 65536"

datatype CompressionLevel = LEVEL_NONE | LEVEL_LOW | LEVEL_MEDIUM | LEVEL_HIGH

fun CompressionLevel_value :: "CompressionLevel \<Rightarrow> int" where
  "CompressionLevel_value LEVEL_NONE = 0"
| "CompressionLevel_value LEVEL_LOW = 1"
| "CompressionLevel_value LEVEL_MEDIUM = 6"
| "CompressionLevel_value LEVEL_HIGH = 9"

datatype MessageType =
  HANDSHAKE | FILE_REQUEST | FILE_RESPONSE | CHUNK_DATA | CHUNK_ACK | ERROR | COMPLETE

fun MessageType_value :: "MessageType \<Rightarrow> nat" where
  "MessageType_value HANDSHAKE = 0x01"
| "MessageType_value FILE_REQUEST = 0x02"
| "MessageType_value FILE_RESPONSE = 0x03"
| "MessageType_value CHUNK_DATA = 0x04"
| "MessageType_value CHUNK_ACK = 0x05"
| "MessageType_value ERROR = 0x06"
| "MessageType_value COMPLETE = 0x07"

subsection \<open>FileTransferProtocol: chunking\<close>

record FileTransferProtocol =
  chunk_size :: nat
  compression :: bool
  protocol_version :: str

definition FileTransferProtocol_init :: "ChunkSize \<Rightarrow> bool \<Rightarrow> FileTransferProtocol" where
  "FileTransferProtocol_init cs c =
     \<lparr>chunk_size = ChunkSize_value cs, compression = c, protocol_version = get_version\<rparr>"

text \<open>
  \<open>split_file\<close>: the loop over \<open>range(0, len(file_data), self.chunk_size)\<close> appends one
  slice per step. \<open>range\<close> raises \<open>ValueError\<close> for a step of zero.
\<close>

definition split_file :: "FileTransferProtocol \<Rightarrow> bytes \<Rightarrow> exn + bytes list" where
  "split_file self file_data =
     (if chunk_size self = 0 then Inl (ValueError (ascii ''range() arg 3 must not be zero''))
      else Inr (foldl (\<lambda>chunks i. chunks @ [slice file_data i (i + chunk_size self)]) []
                  (py_range 0 (length file_data) (chunk_size self))))"

text \<open>\<open>reassemble_file\<close>: \<open>b''.join(chunks)\<close>.\<close>

definition reassemble_file :: "FileTransferProtocol \<Rightarrow> bytes list \<Rightarrow> bytes" where
  "reassemble_file self chunks = concat chunks"

subsection \<open>ProtocolMessage\<close>

definition create_handshake :: "str \<Rightarrow> exn + bytes" where
  "create_handshake version =
     (case str_encode version of
        Inl e \<Rightarrow> Inl e
      | Inr version_bytes \<Rightarrow>
          (case struct_pack [Fmt_B] [int (MessageType_value HANDSHAKE)] of
             Inl e \<Rightarrow> Inl e
           | Inr tag \<Rightarrow>
               (case struct_pack [Fmt_I] [int (length version_bytes)] of
                  Inl e \<Rightarrow> Inl e
                | Inr n \<Rightarrow> Inr (tag @ n @ version_bytes))))"

text \<open>\<open>create_chunk\<close> packs its header with the format \<open>'BIIBq'\<close>.\<close>

definition create_chunk :: "runtime \<Rightarrow> int \<Rightarrow> bytes \<Rightarrow> bool \<Rightarrow> exn + bytes" where
  "create_chunk rt chunk_index data compress =
     (let payload = (if compress then zlib_compress rt data (CompressionLevel_value LEVEL_MEDIUM)
                     else data);
          compressed_flag = (if compress then 1 else 0)
      in case struct_pack [Fmt_B, Fmt_I, Fmt_I, Fmt_B, Fmt_q]
                [int (MessageType_value CHUNK_DATA), chunk_index, int (length payload),
                 compressed_flag, int (length data)] of
           Inl e \<Rightarrow> Inl e
         | Inr header \<Rightarrow> Inr (header @ payload))"

text \<open>
  \<open>parse_chunk\<close> unpacks \<open>message[1:15]\<close> with the format \<open>'IBBq'\<close> and takes
  \<open>message[15:]\<close> as the payload. The last branch stands for the tuple assignment
  failing on a result that has not four values.
\<close>

definition parse_chunk :: "runtime \<Rightarrow> bytes \<Rightarrow> exn + (int \<times> bytes \<times> bool)" where
  "parse_chunk rt message =
     (case struct_unpack [Fmt_B] (slice message 0 1) of
        Inl e \<Rightarrow> Inl e
      | Inr [] \<Rightarrow> Inl IndexError
      | Inr (msg_type # _) \<Rightarrow>
          if msg_type \<noteq> int (MessageType_value CHUNK_DATA)
          then Inl (ValueError (ascii ''Invalid message type: '' @ decimal (nat msg_type)))
          else
            (case struct_unpack [Fmt_I, Fmt_B, Fmt_B, Fmt_q] (slice message 1 15) of
               Inl e \<Rightarrow> Inl e
             | Inr [chunk_index, payload_len, compressed, original_len] \<Rightarrow>
                 (let payload = drop 15 message
                  in if compressed \<noteq> 0
                     then (case zlib_decompress rt payload of
                             Inl e \<Rightarrow> Inl e
                           | Inr p \<Rightarrow> Inr (chunk_index, p, True))
                     else Inr (chunk_index, payload, False))
             | Inr _ \<Rightarrow> Inl (ValueError (ascii ''not enough values to unpack''))))"

definition create_error :: "int \<Rightarrow> str \<Rightarrow> exn + bytes" where
  "create_error error_code error_msg =
     (case str_encode error_msg of
        Inl e \<Rightarrow> Inl e
      | Inr error_bytes \<Rightarrow>
          (case struct_pack [Fmt_B, Fmt_B, Fmt_I]
                  [int (MessageType_value ERROR), error_code, int (length error_bytes)] of
             Inl e \<Rightarrow> Inl e
           | Inr header \<Rightarrow> Inr (header @ error_bytes)))"

subsection \<open>FileTransferProtocol: compression\<close>

definition compress_chunk :: "runtime \<Rightarrow> FileTransferProtocol \<Rightarrow> bytes \<Rightarrow> bytes" where
  "compress_chunk rt self chunk =
     (if compression self then zlib_compress rt chunk (CompressionLevel_value LEVEL_MEDIUM)
      else chunk)"

text \<open>\<open>decompress_chunk\<close> catches \<open>zlib.error\<close> and nothing else.\<close>

definition decompress_chunk :: "runtime \<Rightarrow> FileTransferProtocol \<Rightarrow> bytes \<Rightarrow> exn + bytes" where
  "decompress_chunk rt self chunk =
     (if compression self then
        (case zlib_decompress rt chunk of
           Inr out \<Rightarrow> Inr out
         | Inl ZlibError \<Rightarrow> Inr chunk
         | Inl e \<Rightarrow> Inl e)
      else Inr chunk)"

section \<open>server.py\<close>

text \<open>
  A connection, seen from the server: the bytes that have arrived and are not read yet,
  the buffers written so far (one entry per \<open>sendall\<close>, in order), and whether the
  socket has been closed. \<open>recv(n)\<close> hands over at most \<open>n\<close> bytes of what has arrived;
  writes succeed.
\<close>

record socket =
  inbox :: bytes
  sent :: "bytes list"
  closed :: bool

definition recv :: "nat \<Rightarrow> socket \<Rightarrow> bytes \<times> socket" where
  "recv n sock = (take n (inbox sock), sock\<lparr>inbox := drop n (inbox sock)\<rparr>)"

definition sendall :: "socket \<Rightarrow> bytes \<Rightarrow> socket" where
  "sendall sock msg = sock\<lparr>sent := sent sock @ [msg]\<rparr>"

definition close :: "socket \<Rightarrow> socket" where
  "close sock = sock\<lparr>closed := True\<rparr>"

text \<open>
  The fields of \<open>FileShareServer\<close> that a session uses; \<open>active_connections\<close> is the
  key set of the dictionary. The constructor fixes the chunk size \<open>MEDIUM\<close> and turns
  compression on (it also creates the directory when it is missing, which no session
  depends on).
\<close>

record FileShareServer =
  data_dir :: str
  protocol :: FileTransferProtocol
  active_connections :: "nat set"

definition FileShareServer_init :: "str \<Rightarrow> FileShareServer" where
  "FileShareServer_init dir =
     \<lparr>data_dir = dir, protocol = FileTransferProtocol_init MEDIUM True,
      active_connections = {}\<rparr>"

text \<open>
  The error replies are built in place with
  \<open>struct.pack('BBI', MessageType.ERROR.value, code, len(error_msg)) + error_msg\<close>;
  in the \<open>except\<close> clauses \<open>error_msg\<close> is \<open>str(e).encode('utf-8')\<close>.
\<close>

definition error_frame :: "int \<Rightarrow> bytes \<Rightarrow> exn + bytes" where
  "error_frame code error_msg =
     (case struct_pack [Fmt_B, Fmt_B, Fmt_I]
             [int (MessageType_value ERROR), code, int (length error_msg)] of
        Inl e \<Rightarrow> Inl e
      | Inr header \<Rightarrow> Inr (header @ error_msg))"

definition except_reply :: "runtime \<Rightarrow> int \<Rightarrow> exn \<Rightarrow> exn + bytes" where
  "except_reply rt code e =
     (case str_encode (py_str rt e) of
        Inl e' \<Rightarrow> Inl e'
      | Inr error_msg \<Rightarrow> error_frame code error_msg)"

definition handle_handshake :: "FileShareServer \<Rightarrow> bytes \<Rightarrow> exn + bytes" where
  "handle_handshake self data = create_handshake (protocol_version (protocol self))"

text \<open>The loop \<open>for i, chunk in enumerate(chunks)\<close> of \<open>_handle_file_request\<close>.\<close>

fun send_chunks :: "runtime \<Rightarrow> bool \<Rightarrow> socket \<Rightarrow> (nat \<times> bytes) list \<Rightarrow> socket \<times> (exn + unit)" where
  "send_chunks rt c sock [] = (sock, Inr ())"
| "send_chunks rt c sock ((i, chunk) # rest) =
     (case create_chunk rt (int i) chunk c of
        Inl e \<Rightarrow> (sock, Inl e)
      | Inr msg \<Rightarrow> send_chunks rt c (sendall sock msg) rest)"

text \<open>
  The \<open>try\<close> block of \<open>_handle_file_request\<close>. After the loop it evaluates
  \<open>ProtocolMessage.create_message\<close>, an attribute that the class does not have, which
  raises \<open>AttributeError\<close>.
\<close>

definition file_request_try ::
  "runtime \<Rightarrow> filesystem \<Rightarrow> FileShareServer \<Rightarrow> socket \<Rightarrow> bytes \<Rightarrow> socket \<times> (exn + bytes)" where
  "file_request_try rt fs self client_socket data =
     (case struct_unpack [Fmt_I] (slice data 1 5) of
        Inl e \<Rightarrow> (client_socket, Inl e)
      | Inr [] \<Rightarrow> (client_socket, Inl IndexError)
      | Inr (filename_len # _) \<Rightarrow>
          (case bytes_decode (slice data 5 (5 + nat filename_len)) of
             Inl e \<Rightarrow> (client_socket, Inl e)
           | Inr filename \<Rightarrow>
               (let filepath = os_path_join (data_dir self) (basename filename)
                in if os_path_exists fs filepath \<and> os_path_isfile fs filepath then
                     (case read_file fs filepath of
                        Inl e \<Rightarrow> (client_socket, Inl e)
                      | Inr file_data \<Rightarrow>
                          (case split_file (protocol self) file_data of
                             Inl e \<Rightarrow> (client_socket, Inl e)
                           | Inr chunks \<Rightarrow>
                               (case send_chunks rt (compression (protocol self)) client_socket
                                       (enumerate 0 chunks) of
                                  (sock', Inl e) \<Rightarrow> (sock', Inl e)
                                | (sock', Inr _) \<Rightarrow> (sock', Inl AttributeError))))
                   else
                     (case str_encode (ascii ''File not found: '' @ filename) of
                        Inl e \<Rightarrow> (client_socket, Inl e)
                      | Inr error_msg \<Rightarrow> (client_socket, error_frame 2 error_msg)))))"

definition handle_file_request ::
  "runtime \<Rightarrow> filesystem \<Rightarrow> FileShareServer \<Rightarrow> socket \<Rightarrow> bytes \<Rightarrow> socket \<times> (exn + bytes)" where
  "handle_file_request rt fs self client_socket data =
     (case file_request_try rt fs self client_socket data of
        (sock', Inr reply) \<Rightarrow> (sock', Inr reply)
      | (sock', Inl e) \<Rightarrow> (sock', except_reply rt 3 e))"

definition handle_chunk_upload :: "runtime \<Rightarrow> bytes \<Rightarrow> exn + bytes" where
  "handle_chunk_upload rt data =
     (case (case parse_chunk rt data of
              Inl e \<Rightarrow> Inl e
            | Inr (chunk_index, payload, compressed) \<Rightarrow>
                struct_pack [Fmt_B, Fmt_B, Fmt_I]
                  [int (MessageType_value CHUNK_ACK), chunk_index, 0]) of
        Inr reply \<Rightarrow> Inr reply
      | Inl e \<Rightarrow> except_reply rt 4 e)"

text \<open>
  \<open>_process_client_request\<close> reads once, dispatches on the first byte and turns every
  exception that reaches it into \<open>None\<close>.
\<close>

definition process_client_request ::
  "runtime \<Rightarrow> filesystem \<Rightarrow> FileShareServer \<Rightarrow> socket \<Rightarrow> socket \<times> bytes option" where
  "process_client_request rt fs self client_socket =
     (case recv 1024 client_socket of
        (data, sock) \<Rightarrow>
          (case data of
             [] \<Rightarrow> (sock, None)
           | b # _ \<Rightarrow>
               (let msg_type = (of_char b :: nat)
                in if msg_type = MessageType_value HANDSHAKE then
                     (case handle_handshake self data of
                        Inl e \<Rightarrow> (sock, None)
                      | Inr reply \<Rightarrow> (sock, Some reply))
                   else if msg_type = MessageType_value FILE_REQUEST then
                     (case handle_file_request rt fs self sock data of
                        (sock', Inl e) \<Rightarrow> (sock', None)
                      | (sock', Inr reply) \<Rightarrow> (sock', Some reply))
                   else if msg_type = MessageType_value CHUNK_DATA then
                     (case handle_chunk_upload rt data of
                        Inl e \<Rightarrow> (sock, None)
                      | Inr reply \<Rightarrow> (sock, Some reply))
                   else
                     (case str_encode (ascii ''Unknown message type'') of
                        Inl e \<Rightarrow> (sock, None)
                      | Inr error_msg \<Rightarrow>
                          (case error_frame 1 error_msg of
                             Inl e \<Rightarrow> (sock, None)
                           | Inr reply \<Rightarrow> (sock, Some reply))))))"

text \<open>
  What a session can touch: the file system, the server object and the client's socket.
  \<open>_handle_client\<close> registers the connection, sends the response if there is a
  non-empty one, and in its \<open>finally\<close> clause closes the socket and removes the
  registration. No statement of server.py writes a file, so the file system comes back as
  it went in.
\<close>

record system =
  disk :: filesystem
  server :: FileShareServer
  connection :: socket

definition handle_client :: "runtime \<Rightarrow> system \<Rightarrow> nat \<Rightarrow> system" where
  "handle_client rt sys client_id =
     (let self = (server sys)\<lparr>active_connections :=
                    insert client_id (active_connections (server sys))\<rparr>
      in case process_client_request rt (disk sys) self (connection sys) of
           (sock, response) \<Rightarrow>
             (let sock' = (case response of
                             None \<Rightarrow> sock
                           | Some r \<Rightarrow> if r \<noteq> [] then sendall sock r else sock)
              in \<lparr>disk = disk sys,
                  server = self\<lparr>active_connections := active_connections self - {client_id}\<rparr>,
                  connection = close sock'\<rparr>))"

section \<open>A runtime and a server for concrete sessions\<close>

text \<open>
  The concrete sessions evaluated in this theory run on \<open>cpython\<close>. Its exception texts
  are the ones CPython 3 gives at the three places where these sessions raise a library
  exception: \<open>struct.unpack('IBBq', ...)\<close> in \<open>parse_chunk\<close>, the attribute lookup
  \<open>ProtocolMessage.create_message\<close>, and the decoding of the name that \<open>request_long\<close>
  carries, cut after 1019 bytes. None of the sessions reaches the deflate coding:
  \<open>zlib_compress\<close> is the stored coding of RFC 1950 and RFC 1951 for data of at most
  65535 bytes (a valid zlib stream, though not the bytes that level 6 produces), and
  \<open>zlib_inflate\<close> rejects what it is given.
\<close>

definition adler32 :: "bytes \<Rightarrow> nat" where
  "adler32 data =
     (case foldl (\<lambda>(a, b) c. ((a + of_char c) mod 65521, (b + (a + of_char c) mod 65521) mod 65521))
             (1, 0) data of
        (a, b) \<Rightarrow> b * 65536 + a)"

definition zlib_stored :: "bytes \<Rightarrow> int \<Rightarrow> bytes" where
  "zlib_stored data level =
     [CHR 0x78, CHR 0x01, CHR 0x01] @ le_bytes 2 (length data) @ le_bytes 2 (65535 - length data)
       @ data @ rev (le_bytes 4 (adler32 data))"

definition cpython_text :: "exn \<Rightarrow> str" where
  "cpython_text e =
     (case e of
        StructError \<Rightarrow> ascii ''unpack requires a buffer of 16 bytes''
      | AttributeError \<Rightarrow>
          ascii ''type object '' @ [39] @ ascii ''ProtocolMessage'' @ [39]
            @ ascii '' has no attribute '' @ [39] @ ascii ''create_message'' @ [39]
      | UnicodeDecodeError \<Rightarrow>
          [39] @ ascii ''utf-8'' @ [39] @ ascii '' codec can'' @ [39]
            @ ascii ''t decode byte 0xc3 in position 1018: unexpected end of data''
      | _ \<Rightarrow> [])"

definition cpython :: runtime where
  "cpython = \<lparr>zlib_compress = zlib_stored, zlib_inflate = (\<lambda>b. Inl ZlibError),
              exception_text = cpython_text\<rparr>"

text \<open>The server as \<open>main\<close> creates it by default, and a connection on which \<open>data\<close> has arrived.\<close>

definition shared_files :: str where
  "shared_files = ascii ''./shared_files''"

definition incoming :: "bytes \<Rightarrow> socket" where
  "incoming data = \<lparr>inbox = data, sent = [], closed = False\<rparr>"

definition session :: "filesystem \<Rightarrow> bytes \<Rightarrow> system" where
  "session fs data =
     \<lparr>disk = fs, server = FileShareServer_init shared_files, connection = incoming data\<rparr>"

text \<open>
  Messages for these sessions: the ChunkData message that \<open>create_chunk(0, b'abc', False)\<close>
  builds, a Handshake that advertises version 2.0.0, and two FileRequests in the layout
  that \<open>_handle_file_request\<close> reads (tag, four-byte length, name).
\<close>

definition chunk_abc :: bytes where
  "chunk_abc =
     [CHR 0x04, CHR 0x00, CHR 0x00, CHR 0x00, CHR 0x00, CHR 0x00, CHR 0x00, CHR 0x00,
      CHR 0x03, CHR 0x00, CHR 0x00, CHR 0x00, CHR 0x00, CHR 0x00, CHR 0x00, CHR 0x00,
      CHR 0x03, CHR 0x00, CHR 0x00, CHR 0x00, CHR 0x00, CHR 0x00, CHR 0x00, CHR 0x00]
     @ ''abc''"

definition handshake_2_0_0 :: bytes where
  "handshake_2_0_0 = [CHR 0x01, CHR 0x05, CHR 0x00, CHR 0x00, CHR 0x00] @ ''2.0.0''"

definition request_a_txt :: bytes where
  "request_a_txt = [CHR 0x02, CHR 0x05, CHR 0x00, CHR 0x00, CHR 0x00] @ ''a.txt''"

text \<open>
  A FileRequest of 1025 bytes: its name has 1020 bytes, 1018 times the letter a and the
  two bytes of one accented letter, so that \<open>recv(1024)\<close> returns all but the last byte.
\<close>

definition request_long :: bytes where
  "request_long =
     [CHR 0x02, CHR 0xFC, CHR 0x03, CHR 0x00, CHR 0x00]
     @ replicate 1018 (CHR ''a'') @ [CHR 0xC3, CHR 0xA9]"

definition request_passwd :: bytes where
  "request_passwd = [CHR 0x02, CHR 0x10, CHR 0x00, CHR 0x00, CHR 0x00] @ ''../../etc/passwd''"

section \<open>Chunking: splitting and reassembling\<close>

lemma foldl_append_slices:
  "foldl (\<lambda>chunks i. chunks @ [g i]) acc ns = acc @ map g ns"
  by (induction ns arbitrary: acc) simp_all

lemma chunk_count_nonempty:
  assumes "0 < (s::nat)" "0 < n"
  shows "(n + s - 1) div s = Suc ((n - s + s - 1) div s)"
proof (cases "n \<le> s")
  case True
  with assms have "(n + s - 1) div s = 1"
    by (intro div_nat_eqI) simp_all
  moreover from True assms have "(n - s + s - 1) div s = 0" by simp
  ultimately show ?thesis by simp
next
  case False
  then have "n + s - 1 = (n - s + s - 1) + s" by simp
  then have "(n + s - 1) div s = (n - s + s - 1) div s + 1"
    using assms(1) by (metis div_add_self2 less_numeral_extra(3))
  then show ?thesis by simp
qed

lemma concat_slices:
  assumes "0 < s"
  shows "concat (map (\<lambda>k. slice d (k * s) (k * s + s)) [0 ..< (length d + s - 1) div s]) = d"
  using assms
proof (induction "length d" arbitrary: d rule: less_induct)
  case less
  show ?case
  proof (cases "d = []")
    case True
    with less.prems show ?thesis by simp
  next
    case False
    let ?n = "(length d + s - 1) div s"
    let ?r = "drop s d"
    let ?m = "(length ?r + s - 1) div s"
    have n: "?n = Suc ?m"
      using chunk_count_nonempty [of s "length d"] less.prems False by simp
    have shift: "slice d (Suc k * s) (Suc k * s + s) = slice ?r (k * s) (k * s + s)" for k
      by (simp add: slice_def add.commute)
    have "[0 ..< Suc ?m] = 0 # map Suc [0 ..< ?m]"
      by (simp only: upt_conv_Cons [OF zero_less_Suc] map_Suc_upt)
    then have "map (\<lambda>k. slice d (k * s) (k * s + s)) [0 ..< ?n]
                 = slice d 0 s # map (\<lambda>k. slice ?r (k * s) (k * s + s)) [0 ..< ?m]"
      unfolding n by (simp only: list.map map_map comp_def shift) simp
    then have "concat (map (\<lambda>k. slice d (k * s) (k * s + s)) [0 ..< ?n])
                 = take s d @ concat (map (\<lambda>k. slice ?r (k * s) (k * s + s)) [0 ..< ?m])"
      by (simp only: concat.simps) (simp add: slice_def)
    also have "concat (map (\<lambda>k. slice ?r (k * s) (k * s + s)) [0 ..< ?m]) = ?r"
      using False less.prems by (intro less.hyps) simp_all
    finally show ?thesis by simp
  qed
qed

section \<open>The struct module: sizes and layouts\<close>

lemma calcsize_IBBq: "calcsize [Fmt_I, Fmt_B, Fmt_B, Fmt_q] = 16"
  by (simp add: calcsize_def fmt_pad_def)

lemma calcsize_B: "calcsize [Fmt_B] = 1"
  by (simp add: calcsize_def fmt_pad_def)

lemma length_slice_le: "length (slice xs i j) \<le> j - i"
  by (simp add: slice_def)

lemma unpack_IBBq_fails:
  "struct_unpack [Fmt_I, Fmt_B, Fmt_B, Fmt_q] (slice message 1 15) = Inl StructError"
proof -
  have "length (slice message 1 15) \<le> 14"
    using length_slice_le [of message 1 15] by simp
  then show ?thesis
    by (simp add: struct_unpack_def calcsize_IBBq)
qed

lemma unpack_B:
  "struct_unpack [Fmt_B] (slice message 0 1) =
     (case message of [] \<Rightarrow> Inl StructError | b # _ \<Rightarrow> Inr [int (of_char b)])"
  by (cases message)
     (simp_all add: struct_unpack_def calcsize_B slice_def fmt_pad_def fmt_decode_def)

lemma parse_chunk_cases:
  "parse_chunk rt message =
     (case message of
        [] \<Rightarrow> Inl StructError
      | b # _ \<Rightarrow>
          if of_char b = (4::nat) then Inl StructError
          else Inl (ValueError (ascii ''Invalid message type: '' @ decimal (of_char b))))"
  unfolding parse_chunk_def unpack_B unpack_IBBq_fails
  by (simp split: list.split)

lemma pack_first_B:
  assumes "pack_from 0 (Fmt_B # fs) (v # vs) = Inr header"
  shows "\<exists>rest. header = char_of (nat v) # rest"
  using assms
  by (auto simp add: fmt_pad_def fmt_encode_def nat_mod_distrib split: if_splits sum.splits)

lemma create_chunk_tag:
  assumes "create_chunk rt chunk_index data compress = Inr message"
  shows "\<exists>rest. message = CHR 0x04 # rest"
proof -
  from assms obtain header payload where
    h: "pack_from 0 (Fmt_B # [Fmt_I, Fmt_I, Fmt_B, Fmt_q])
          (4 # [chunk_index, int (length payload),
                if compress then 1 else 0, int (length data)]) = Inr header"
    and m: "message = header @ payload"
    by (auto simp add: create_chunk_def struct_pack_def Let_def split: sum.splits)
  from pack_first_B [OF h] obtain rest where "header = char_of (nat 4) # rest" ..
  with m show ?thesis by (simp add: char_of_eq_iff)
qed

lemma le_bytes_numeral:
  "le_bytes (numeral k) n = char_of (n mod 256) # le_bytes (pred_numeral k) (n div 256)"
  by (simp only: numeral_eq_Suc [of k] le_bytes.simps)

lemma replicate_numeral:
  "replicate (numeral k) x = x # replicate (pred_numeral k) x"
  by (simp only: numeral_eq_Suc [of k] replicate.simps)

lemma fmt_encode_B: "0 \<le> v \<Longrightarrow> v < 256 \<Longrightarrow> fmt_encode Fmt_B v = [char_of (nat v)]"
  by (simp add: fmt_encode_def)

lemma fmt_encode_I: "n < 2 ^ 32 \<Longrightarrow> fmt_encode Fmt_I (int n) = le_bytes 4 n"
  by (simp add: fmt_encode_def nat_mod_distrib)

lemma pack_BBI:
  assumes "0 \<le> a" "a < 256" "0 \<le> b" "b < 256" "n < 2 ^ 32"
  shows "struct_pack [Fmt_B, Fmt_B, Fmt_I] [a, b, int n] =
           Inr (char_of (nat a) # char_of (nat b) # CHR 0x00 # CHR 0x00 # le_bytes 4 n)"
  using assms
  by (simp add: struct_pack_def fmt_pad_def fmt_encode_B fmt_encode_I replicate_numeral)

lemma error_frame_eq:
  assumes "0 \<le> code" "code < 256" "length error_msg < 2 ^ 32"
  shows "error_frame code error_msg =
           Inr (CHR 0x06 # char_of (nat code) # CHR 0x00 # CHR 0x00
                  # le_bytes 4 (length error_msg) @ error_msg)"
  using pack_BBI [of 6 code "length error_msg"] assms
  by (simp add: error_frame_def char_of_eq_iff)

lemma unpack_I:
  "struct_unpack [Fmt_I] buf =
     (if length buf \<noteq> 4 then Inl StructError else Inr [int (le_nat buf)])"
  by (simp add: struct_unpack_def calcsize_def fmt_pad_def fmt_decode_def slice_def)

section \<open>UTF-8: encoding what was decoded\<close>

lemma low_digit:
  fixes a z :: nat
  assumes "z < 64"
  shows "(a * 64 + z) mod 64 = z" and "(a * 64 + z) div 64 = a"
  using assms by simp_all

lemma utf8_char_1: "b0 < 0x80 \<Longrightarrow> utf8_char b0 = [b0] \<and> scalar b0"
  by (simp add: utf8_char_def scalar_def)

lemma utf8_char_2:
  assumes "0xC2 \<le> b0" "b0 \<le> 0xDF" "utf8_cont b1"
  shows "utf8_char ((b0 - 0xC0) * 64 + (b1 - 0x80)) = [b0, b1] \<and>
         scalar ((b0 - 0xC0) * 64 + (b1 - 0x80))"
proof -
  define x y where "x = b0 - 0xC0" and "y = b1 - 0x80"
  from assms have b: "b0 = 0xC0 + x" "b1 = 0x80 + y" and r: "2 \<le> x" "x < 32" "y < 64"
    by (auto simp add: utf8_cont_def x_def y_def)
  have "\<not> x * 64 + y < 0x80" "x * 64 + y < 0x800"
    using r by linarith+
  then show ?thesis
    unfolding x_def [symmetric] y_def [symmetric]
    using r by (simp add: utf8_char_def scalar_def b)
qed

lemma utf8_char_3:
  assumes "0xE0 \<le> b0" "b0 \<le> 0xEF" "utf8_second b0 b1" "utf8_cont b2"
  shows "utf8_char ((b0 - 0xE0) * 4096 + (b1 - 0x80) * 64 + (b2 - 0x80)) = [b0, b1, b2] \<and>
         scalar ((b0 - 0xE0) * 4096 + (b1 - 0x80) * 64 + (b2 - 0x80))"
proof -
  define x y z where "x = b0 - 0xE0" and "y = b1 - 0x80" and "z = b2 - 0x80"
  define c where "c = x * 4096 + y * 64 + z"
  from assms have b: "b0 = 0xE0 + x" "b1 = 0x80 + y" "b2 = 0x80 + z"
    and r: "x < 16" "y < 64" "z < 64" "x = 0 \<longrightarrow> 32 \<le> y" "x = 13 \<longrightarrow> y < 32"
    by (auto simp add: utf8_cont_def utf8_second_def x_def y_def z_def split: if_splits)
  have c: "c = (x * 64 + y) * 64 + z"
    by (simp add: c_def)
  have lo: "\<not> c < 0x800" and hi: "c < 0x10000"
    using r unfolding c_def by linarith+
  have "x \<le> 12 \<Longrightarrow> c < 0xD800" "x = 13 \<Longrightarrow> c < 0xD800" "14 \<le> x \<Longrightarrow> 0xDFFF < c"
    using r unfolding c_def by linarith+
  then have sc: "c < 0xD800 \<or> 0xDFFF < c"
    by linarith
  have d0: "c mod 64 = z" and d1: "c div 64 = x * 64 + y"
    unfolding c using r(3) by (rule low_digit)+
  have d2: "c div 64 mod 64 = y" and d3: "c div 4096 = x"
    using low_digit [OF r(2), of x] d1 div_mult2_eq [of c 64 64] by simp_all
  show ?thesis
    unfolding x_def [symmetric] y_def [symmetric] z_def [symmetric] c_def [symmetric]
    using lo hi sc by (auto simp add: utf8_char_def scalar_def d0 d2 d3 b)
qed

lemma utf8_char_4:
  assumes "0xF0 \<le> b0" "b0 \<le> 0xF4" "utf8_second b0 b1" "utf8_cont b2" "utf8_cont b3"
  shows "utf8_char ((b0 - 0xF0) * 262144 + (b1 - 0x80) * 4096 + (b2 - 0x80) * 64 + (b3 - 0x80))
           = [b0, b1, b2, b3] \<and>
         scalar ((b0 - 0xF0) * 262144 + (b1 - 0x80) * 4096 + (b2 - 0x80) * 64 + (b3 - 0x80))"
proof -
  define x y z w where "x = b0 - 0xF0" and "y = b1 - 0x80" and "z = b2 - 0x80"
    and "w = b3 - 0x80"
  define c where "c = x * 262144 + y * 4096 + z * 64 + w"
  from assms have b: "b0 = 0xF0 + x" "b1 = 0x80 + y" "b2 = 0x80 + z" "b3 = 0x80 + w"
    and r: "x < 5" "y < 64" "z < 64" "w < 64" "x = 0 \<longrightarrow> 16 \<le> y" "x = 4 \<longrightarrow> y < 16"
    by (auto simp add: utf8_cont_def utf8_second_def x_def y_def z_def w_def split: if_splits)
  have c: "c = ((x * 64 + y) * 64 + z) * 64 + w"
    by (simp add: c_def)
  have lo: "\<not> c < 0x10000" and hi: "c < 0x110000"
    using r unfolding c_def by linarith+
  have d0: "c mod 64 = w" and d1: "c div 64 = (x * 64 + y) * 64 + z"
    unfolding c using r(4) by (rule low_digit)+
  have d2: "c div 64 mod 64 = z" and d3: "c div 4096 = x * 64 + y"
    using low_digit [OF r(3), of "x * 64 + y"] d1 div_mult2_eq [of c 64 64] by simp_all
  have d4: "c div 4096 mod 64 = y" and d5: "c div 262144 = x"
    using low_digit [OF r(2), of x] d3 div_mult2_eq [of c 4096 64] by simp_all
  show ?thesis
    unfolding x_def [symmetric] y_def [symmetric] z_def [symmetric] w_def [symmetric]
      c_def [symmetric]
    using lo hi by (auto simp add: utf8_char_def scalar_def d0 d2 d4 d5 b)
qed

lemma utf8_encode_decode:
  "utf8_decode ns = Inr s \<Longrightarrow> utf8_encode s = Inr ns"
proof (induction ns arbitrary: s rule: utf8_decode.induct)
  case 1
  then show ?case by simp
next
  case (2 b0 bs)
  consider (one) "b0 < 0x80"
    | (two) "0xC2 \<le> b0" "b0 \<le> 0xDF"
    | (three) "0xE0 \<le> b0" "b0 \<le> 0xEF"
    | (four) "0xF0 \<le> b0" "b0 \<le> 0xF4"
    | (bad) "\<not> b0 < 0x80" "\<not> (0xC2 \<le> b0 \<and> b0 \<le> 0xDF)" "\<not> (0xE0 \<le> b0 \<and> b0 \<le> 0xEF)"
        "\<not> (0xF0 \<le> b0 \<and> b0 \<le> 0xF4)"
    by linarith
  then show ?case
  proof cases
    case one
    with "2.prems" obtain t where t: "utf8_decode bs = Inr t" "s = b0 # t"
      by (auto split: sum.splits)
    from "2.IH"(1) [OF one t(1)] utf8_char_1 [OF one] t(2) show ?thesis
      by (simp add: scalar_def)
  next
    case two
    with "2.prems" obtain b1 r t where
      t: "bs = b1 # r" "utf8_cont b1" "utf8_decode r = Inr t"
         "s = ((b0 - 0xC0) * 64 + (b1 - 0x80)) # t"
      by (auto split: sum.splits list.splits if_splits)
    have "utf8_encode t = Inr r"
      using "2.IH"(2) two t by simp
    with utf8_char_2 [OF two t(2)] t show ?thesis
      by (simp add: scalar_def)
  next
    case three
    with "2.prems" obtain b1 b2 r t where
      t: "bs = b1 # b2 # r" "utf8_second b0 b1" "utf8_cont b2" "utf8_decode r = Inr t"
         "s = ((b0 - 0xE0) * 4096 + (b1 - 0x80) * 64 + (b2 - 0x80)) # t"
      by (auto split: sum.splits list.splits if_splits)
    have "utf8_encode t = Inr r"
      using "2.IH"(3) three t by simp
    with utf8_char_3 [OF three t(2,3)] t show ?thesis
      by (simp add: scalar_def)
  next
    case four
    with "2.prems" obtain b1 b2 b3 r t where
      t: "bs = b1 # b2 # b3 # r" "utf8_second b0 b1" "utf8_cont b2" "utf8_cont b3"
         "utf8_decode r = Inr t"
         "s = ((b0 - 0xF0) * 262144 + (b1 - 0x80) * 4096 + (b2 - 0x80) * 64 + (b3 - 0x80)) # t"
      by (auto split: sum.splits list.splits if_splits)
    have "utf8_encode t = Inr r"
      using "2.IH"(4) four t by simp
    with utf8_char_4 [OF four t(2,3,4)] t show ?thesis
      by (simp add: scalar_def)
  next
    case bad
    with "2.prems" show ?thesis by simp
  qed
qed

lemma utf8_encode_append:
  "utf8_encode a = Inr x \<Longrightarrow> utf8_encode b = Inr y \<Longrightarrow> utf8_encode (a @ b) = Inr (x @ y)"
  by (induction a arbitrary: x) (auto split: if_splits sum.splits)

lemma utf8_encode_ascii:
  "list_all (\<lambda>c. (of_char c :: nat) < 0x80) lit \<Longrightarrow> utf8_encode (ascii lit) = Inr (map of_char lit)"
  by (induction lit) (simp_all add: ascii_def utf8_char_def scalar_def)

lemma str_encode_prefixed:
  assumes "list_all (\<lambda>c. (of_char c :: nat) < 0x80) lit" and "bytes_decode bs = Inr s"
  shows "str_encode (ascii lit @ s) = Inr (lit @ bs)"
proof -
  from assms(2) have "utf8_encode s = Inr (map of_char bs)"
    unfolding bytes_decode_def by (rule utf8_encode_decode)
  with utf8_encode_ascii [OF assms(1)]
  have "utf8_encode (ascii lit @ s) = Inr (map of_char lit @ map of_char bs)"
    by (rule utf8_encode_append)
  then show ?thesis
    by (simp add: str_encode_def comp_def)
qed

section \<open>Paths\<close>

lemma rfind_is_last:
  "filter P (rev [0 ..< n]) = i # rest \<Longrightarrow> j < n \<Longrightarrow> P j \<Longrightarrow> j \<le> i"
proof (induction n)
  case 0
  then show ?case by simp
next
  case (Suc n)
  show ?case
  proof (cases "P n")
    case True
    with Suc.prems show ?thesis by simp
  next
    case False
    with Suc.prems have "filter P (rev [0 ..< n]) = i # rest" "j < n"
      by (auto simp add: less_Suc_eq)
    then show ?thesis
      using Suc.IH Suc.prems(3) by blast
  qed
qed

lemma basename_no_sep: "sep \<notin> set (basename p)"
proof
  assume "sep \<in> set (basename p)"
  then obtain k where k: "k < length (basename p)" "basename p ! k = sep"
    by (auto simp add: in_set_conv_nth)
  define d where "d = nat (py_rfind p sep + 1)"
  have j: "d + k < length p" "p ! (d + k) = sep"
    using k unfolding basename_def d_def [symmetric] by simp_all
  show False
  proof (cases "filter (\<lambda>i. p ! i = sep) (rev [0 ..< length p])")
    case Nil
    then have "\<forall>i < length p. p ! i \<noteq> sep"
      by (auto simp add: filter_empty_conv)
    with j show False by blast
  next
    case (Cons i rest)
    then have "d = Suc i"
      by (simp add: d_def py_rfind_def)
    moreover from rfind_is_last [OF Cons j(1) j(2)] have "d + k \<le> i" .
    ultimately show False by simp
  qed
qed

lemma os_path_join_plain:
  "sep \<notin> set name \<Longrightarrow>
   os_path_join root name = root @ (if root = [] \<or> last root = sep then [] else [sep]) @ name"
  by (cases name) (auto simp add: os_path_join_def)

section \<open>The server's handlers\<close>

lemma process_handshake:
  assumes "take 1024 (inbox sock) = CHR 0x01 # rest"
  shows "process_client_request rt fs self sock =
           (sock\<lparr>inbox := drop 1024 (inbox sock)\<rparr>,
            case handle_handshake self (CHR 0x01 # rest) of Inl e \<Rightarrow> None | Inr reply \<Rightarrow> Some reply)"
  using assms by (simp add: process_client_request_def recv_def split: sum.split)

lemma process_file_request:
  assumes "take 1024 (inbox sock) = CHR 0x02 # rest"
  shows "process_client_request rt fs self sock =
           (case handle_file_request rt fs self (sock\<lparr>inbox := drop 1024 (inbox sock)\<rparr>)
                   (CHR 0x02 # rest) of
              (sock', Inl e) \<Rightarrow> (sock', None)
            | (sock', Inr reply) \<Rightarrow> (sock', Some reply))"
  using assms by (simp add: process_client_request_def recv_def)

lemma process_chunk_upload:
  assumes "take 1024 (inbox sock) = CHR 0x04 # rest"
  shows "process_client_request rt fs self sock =
           (sock\<lparr>inbox := drop 1024 (inbox sock)\<rparr>,
            case handle_chunk_upload rt (CHR 0x04 # rest) of Inl e \<Rightarrow> None | Inr reply \<Rightarrow> Some reply)"
  using assms by (simp add: process_client_request_def recv_def split: sum.split)

lemma decimal_digit: "n < 10 \<Longrightarrow> decimal n = [48 + n]"
  by (simp add: decimal.simps)

lemma get_version_eq: "get_version = [49, 46, 48, 46, 48]"
  by (simp add: get_version_def ProtocolVersion_MAJOR_def ProtocolVersion_MINOR_def
      ProtocolVersion_PATCH_def decimal_digit ascii_def)

lemma pack_B: "0 \<le> v \<Longrightarrow> v < 256 \<Longrightarrow> struct_pack [Fmt_B] [v] = Inr [char_of (nat v)]"
  by (simp add: struct_pack_def fmt_pad_def fmt_encode_B)

lemma pack_I: "n < 2 ^ 32 \<Longrightarrow> struct_pack [Fmt_I] [int n] = Inr (le_bytes 4 n)"
  by (simp add: struct_pack_def fmt_pad_def fmt_encode_I)

lemma create_handshake_own:
  "create_handshake get_version =
     Inr [CHR 0x01, CHR 0x05, CHR 0x00, CHR 0x00, CHR 0x00,
          CHR ''1'', CHR ''.'', CHR ''0'', CHR ''.'', CHR ''0'']"
proof -
  have "str_encode get_version = Inr ''1.0.0''"
    by (simp add: get_version_eq str_encode_def scalar_def utf8_char_def char_of_eq_iff)
  moreover have "struct_pack [Fmt_I] [5] = Inr (le_bytes 4 5)"
    using pack_I [of 5] by simp
  ultimately show ?thesis
    by (simp add: create_handshake_def pack_B le_bytes_numeral char_of_eq_iff)
qed

lemma handle_client_frame:
  "disk (handle_client rt sys client_id) = disk sys \<and>
   closed (connection (handle_client rt sys client_id))"
  by (simp add: handle_client_def close_def split: prod.split)

lemma error_frame_tag:
  assumes "error_frame code error_msg = Inr reply"
  shows "\<exists>t. reply = CHR 0x06 # t"
proof -
  from assms obtain header where
    h: "pack_from 0 (Fmt_B # [Fmt_B, Fmt_I]) (6 # [code, int (length error_msg)]) = Inr header"
    and r: "reply = header @ error_msg"
    by (auto simp add: error_frame_def struct_pack_def split: sum.splits)
  from pack_first_B [OF h] obtain rest where "header = char_of (nat 6) # rest" ..
  with r show ?thesis by (simp add: char_of_eq_iff)
qed

lemma except_reply_tag:
  assumes "except_reply rt code e = Inr reply"
  shows "\<exists>t. reply = CHR 0x06 # t"
  using assms error_frame_tag
  by (auto simp add: except_reply_def split: sum.splits)

lemma handle_chunk_upload_reply:
  assumes "handle_chunk_upload rt data = Inr reply"
  shows "(\<exists>t. reply = CHR 0x05 # t) \<or> (\<exists>t. reply = CHR 0x06 # t)"
proof (cases "case parse_chunk rt data of
                Inl e \<Rightarrow> Inl e
              | Inr (chunk_index, payload, compressed) \<Rightarrow>
                  struct_pack [Fmt_B, Fmt_B, Fmt_I]
                    [int (MessageType_value CHUNK_ACK), chunk_index, 0]")
  case (Inl e)
  with assms have "except_reply rt 4 e = Inr reply"
    by (simp add: handle_chunk_upload_def)
  then show ?thesis
    using except_reply_tag by blast
next
  case (Inr ack)
  with assms have "ack = reply"
    by (simp add: handle_chunk_upload_def)
  with Inr obtain chunk_index where
    "pack_from 0 (Fmt_B # [Fmt_B, Fmt_I]) (5 # [chunk_index, 0]) = Inr reply"
    by (auto simp add: struct_pack_def split: sum.splits)
  from pack_first_B [OF this] obtain rest where "reply = char_of (nat 5) # rest" ..
  then show ?thesis by (simp add: char_of_eq_iff)
qed

lemma handle_client_upload:
  assumes "take 1024 (inbox (connection sys)) = CHR 0x04 # rest"
  shows "disk (handle_client rt sys client_id) = disk sys \<and>
         closed (connection (handle_client rt sys client_id)) \<and>
         (sent (connection (handle_client rt sys client_id)) = sent (connection sys) \<or>
          (\<exists>t. sent (connection (handle_client rt sys client_id))
                 = sent (connection sys) @ [CHR 0x05 # t]) \<or>
          (\<exists>t. sent (connection (handle_client rt sys client_id))
                 = sent (connection sys) @ [CHR 0x06 # t]))"
proof (cases "handle_chunk_upload rt (CHR 0x04 # rest)")
  case (Inl e)
  then show ?thesis
    by (simp add: handle_client_def process_chunk_upload [OF assms] close_def)
next
  case (Inr reply)
  from handle_chunk_upload_reply [OF this] Inr show ?thesis
    by (auto simp add: handle_client_def process_chunk_upload [OF assms] close_def sendall_def)
qed

lemma str_encode_ascii:
  "list_all (\<lambda>c. (of_char c :: nat) < 0x80) lit \<Longrightarrow> str_encode (ascii lit) = Inr lit"
  by (simp add: str_encode_def utf8_encode_ascii comp_def)

lemma file_request_fields:
  assumes "length len_field = 4"
  shows "struct_unpack [Fmt_I] (slice (tag # len_field @ body) 1 5)
           = Inr [int (le_nat len_field)]"
    and "slice (tag # len_field @ body) 5 (5 + n) = take n body"
  using assms by (simp_all add: unpack_I slice_def)

lemma file_request_try_missing:
  assumes "length len_field = 4"
    and "bytes_decode (take (le_nat len_field) body) = Inr filename"
    and "\<not> os_path_isfile fs (os_path_join (data_dir self) (basename filename))"
  shows "file_request_try rt fs self sock (tag # len_field @ body) =
           (sock, error_frame 2 (''File not found: '' @ take (le_nat len_field) body))"
proof -
  have enc: "str_encode (ascii ''File not found: '' @ filename)
          = Inr (''File not found: '' @ take (le_nat len_field) body)"
    using assms(2) by (intro str_encode_prefixed) simp_all
  show ?thesis
    unfolding file_request_try_def file_request_fields [OF assms(1)]
    using assms(2,3) enc by simp
qed

lemma handle_client_missing_file:
  assumes "take 1024 (inbox (connection sys)) = CHR 0x02 # len_field @ body"
    and "length len_field = 4"
    and "bytes_decode (take (le_nat len_field) body) = Inr filename"
    and "\<not> os_path_isfile (disk sys)
            (os_path_join (data_dir (server sys)) (basename filename))"
  shows "sent (connection (handle_client rt sys client_id)) =
           sent (connection sys) @
             [CHR 0x06 # CHR 0x02 # CHR 0x00 # CHR 0x00 #
                le_bytes 4 (length (''File not found: '' @ take (le_nat len_field) body)) @
                ''File not found: '' @ take (le_nat len_field) body] \<and>
         closed (connection (handle_client rt sys client_id))"
proof -
  define error_msg where "error_msg = ''File not found: '' @ take (le_nat len_field) body"
  have "length (take 1024 (inbox (connection sys))) \<le> 1024"
    by simp
  then have "length body \<le> 1024"
    unfolding assms(1) by simp
  then have "length error_msg < 2 ^ 32"
    by (simp add: error_msg_def)
  then have "error_frame 2 error_msg =
      Inr (CHR 0x06 # char_of (nat 2) # CHR 0x00 # CHR 0x00 #
             le_bytes 4 (length error_msg) @ error_msg)"
    by (intro error_frame_eq) simp_all
  moreover have "char_of (nat 2) = CHR 0x02"
    by (simp add: char_of_eq_iff)
  ultimately have frame: "error_frame 2 error_msg =
      Inr (CHR 0x06 # CHR 0x02 # CHR 0x00 # CHR 0x00 #
             le_bytes 4 (length error_msg) @ error_msg)"
    by simp
  have tried: "file_request_try rt (disk sys)
               ((server sys)\<lparr>active_connections :=
                   insert client_id (active_connections (server sys))\<rparr>)
               sock (CHR 0x02 # len_field @ body) = (sock, error_frame 2 error_msg)" for sock
    unfolding error_msg_def
    using assms(4) by (intro file_request_try_missing [OF assms(2,3)]) simp
  show ?thesis
    unfolding error_msg_def [symmetric]
    by (simp add: handle_client_def process_file_request [OF assms(1)] handle_file_request_def
        tried frame sendall_def close_def)
qed


lemma isfile_read:
  "os_path_isfile fs p \<Longrightarrow> os_path_exists fs p \<and> (\<exists>b. read_file fs p = Inr b)"
  by (auto simp add: os_path_isfile_def os_path_exists_def read_file_def
      split: option.splits node.splits)

lemma file_request_try_existing:
  assumes "length len_field = 4"
    and "bytes_decode (take (le_nat len_field) body) = Inr filename"
    and "os_path_isfile fs (os_path_join (data_dir self) (basename filename))"
  shows "\<exists>sock' e. file_request_try rt fs self sock (tag # len_field @ body) = (sock', Inl e)"
proof -
  from isfile_read [OF assms(3)] obtain file_data where
    f: "os_path_exists fs (os_path_join (data_dir self) (basename filename))"
       "read_file fs (os_path_join (data_dir self) (basename filename)) = Inr file_data"
    by blast
  show ?thesis
    unfolding file_request_try_def file_request_fields [OF assms(1)]
    using assms(2,3) f by (simp split: sum.split prod.split)
qed

lemma handle_file_request_existing:
  assumes "length len_field = 4"
    and "bytes_decode (take (le_nat len_field) body) = Inr filename"
    and "os_path_isfile fs (os_path_join (data_dir self) (basename filename))"
  shows "\<exists>sock' e. handle_file_request rt fs self sock (tag # len_field @ body)
                     = (sock', except_reply rt 3 e)"
proof -
  from file_request_try_existing [OF assms] obtain sock' e where
    "file_request_try rt fs self sock (tag # len_field @ body) = (sock', Inl e)"
    by blast
  then have "handle_file_request rt fs self sock (tag # len_field @ body)
               = (sock', except_reply rt 3 e)"
    by (simp add: handle_file_request_def)
  then show ?thesis
    by blast
qed

lemma file_request_try_same_root:
  assumes "\<forall>name. sep \<notin> set name \<longrightarrow>
             fs' (os_path_join (data_dir self) name) = fs (os_path_join (data_dir self) name)"
  shows "file_request_try rt fs' self sock data = file_request_try rt fs self sock data"
proof -
  have same: "fs' (os_path_join (data_dir self) (basename filename))
                = fs (os_path_join (data_dir self) (basename filename))" for filename
    using assms basename_no_sep by blast
  have "os_path_exists fs' (os_path_join (data_dir self) (basename filename))
          = os_path_exists fs (os_path_join (data_dir self) (basename filename))"
       "os_path_isfile fs' (os_path_join (data_dir self) (basename filename))
          = os_path_isfile fs (os_path_join (data_dir self) (basename filename))"
       "read_file fs' (os_path_join (data_dir self) (basename filename))
          = read_file fs (os_path_join (data_dir self) (basename filename))" for filename
    by (simp_all add: os_path_exists_def os_path_isfile_def read_file_def same)
  then show ?thesis
    by (simp add: file_request_try_def Let_def split: sum.split list.split)
qed

lemma decompress_chunk_zlib_error:
  assumes "compression self" and "zlib_decompress rt chunk = Inl ZlibError"
  shows "decompress_chunk rt self chunk = Inr chunk"
  using assms by (simp add: decompress_chunk_def)



lemma handle_chunk_upload_tagged:
  "handle_chunk_upload rt (CHR 0x04 # rest) = except_reply rt 4 StructError"
  by (simp add: handle_chunk_upload_def parse_chunk_cases)

lemma except_reply_ascii:
  assumes "py_str rt e = ascii lit" and "list_all (\<lambda>c. (of_char c :: nat) < 0x80) lit"
    and "0 \<le> code" "code < 256" "length lit < 2 ^ 32"
  shows "except_reply rt code e =
           Inr (CHR 0x06 # char_of (nat code) # CHR 0x00 # CHR 0x00 # le_bytes 4 (length lit) @ lit)"
  using assms by (simp add: except_reply_def str_encode_ascii error_frame_eq)

lemma except_reply_unpack:
  "except_reply cpython 4 StructError =
     Inr ([CHR 0x06, CHR 0x04, CHR 0x00, CHR 0x00, CHR 0x24, CHR 0x00, CHR 0x00, CHR 0x00]
          @ ''unpack requires a buffer of 16 bytes'')"
  using except_reply_ascii [of cpython StructError "''unpack requires a buffer of 16 bytes''" 4]
  by (simp add: py_str_def cpython_def cpython_text_def le_bytes_numeral char_of_eq_iff)

lemma str_encode_2_0_0: "str_encode (ascii ''2.0.0'') = Inr ''2.0.0''"
  by (rule str_encode_ascii) simp

lemma create_handshake_2_0_0: "create_handshake (ascii ''2.0.0'') = Inr handshake_2_0_0"
proof -
  have "struct_pack [Fmt_I] [5] = Inr (le_bytes 4 5)"
    using pack_I [of 5] by simp
  then show ?thesis
    by (simp add: create_handshake_def str_encode_2_0_0 pack_B le_bytes_numeral char_of_eq_iff
        handshake_2_0_0_def)
qed

lemma handle_client_handshake:
  assumes "take 1024 (inbox (connection sys)) = CHR 0x01 # rest"
    and "protocol_version (protocol (server sys)) = get_version"
  shows "sent (connection (handle_client rt sys client_id)) =
           sent (connection sys) @ [[CHR 0x01, CHR 0x05, CHR 0x00, CHR 0x00, CHR 0x00] @ ''1.0.0''] \<and>
         closed (connection (handle_client rt sys client_id)) \<and>
         disk (handle_client rt sys client_id) = disk sys"
  using assms(2)
  by (simp add: handle_client_def process_handshake [OF assms(1)] handle_handshake_def
      create_handshake_own sendall_def close_def)

lemma session_handshake:
  "take 1024 (inbox (connection (session fs handshake_2_0_0))) = CHR 0x01 # tl handshake_2_0_0"
  "protocol_version (protocol (server (session fs handshake_2_0_0))) = get_version"
  by (simp_all add: session_def incoming_def handshake_2_0_0_def FileShareServer_init_def
      FileTransferProtocol_init_def)

lemma bytes_decode_ascii:
  "list_all (\<lambda>c. (of_char c :: nat) < 0x80) lit \<Longrightarrow> bytes_decode lit = Inr (ascii lit)"
  by (induction lit) (simp_all add: bytes_decode_def ascii_def)

lemma basename_plain: "sep \<notin> set p \<Longrightarrow> basename p = p"
proof -
  assume "sep \<notin> set p"
  then have "\<forall>i < length p. p ! i \<noteq> sep"
    by (metis nth_mem)
  then have "filter (\<lambda>i. p ! i = sep) (rev [0 ..< length p]) = []"
    by (simp add: filter_empty_conv)
  then show ?thesis
    by (simp add: basename_def py_rfind_def)
qed

lemma path_of_empty_txt:
  "os_path_join (data_dir (FileShareServer_init shared_files)) (basename (ascii ''empty.txt''))
     = ascii ''./shared_files/empty.txt''"
proof -
  have "sep \<notin> set (ascii ''empty.txt'')"
    by (simp add: ascii_def sep_def)
  then have "basename (ascii ''empty.txt'') = ascii ''empty.txt''"
    by (rule basename_plain)
  then show ?thesis
    by (simp add: os_path_join_def FileShareServer_init_def shared_files_def ascii_def sep_def)
qed

lemma except_reply_attribute:
  "except_reply cpython 3 AttributeError =
     Inr ([CHR 0x06, CHR 0x03, CHR 0x00, CHR 0x00, CHR 0x3F, CHR 0x00, CHR 0x00, CHR 0x00]
          @ ''type object '' @ [CHR 0x27] @ ''ProtocolMessage'' @ [CHR 0x27]
          @ '' has no attribute '' @ [CHR 0x27] @ ''create_message'' @ [CHR 0x27])"
  using except_reply_ascii [of cpython AttributeError
      "''type object '' @ [CHR 0x27] @ ''ProtocolMessage'' @ [CHR 0x27]
          @ '' has no attribute '' @ [CHR 0x27] @ ''create_message'' @ [CHR 0x27]" 3]
  by (simp add: py_str_def cpython_def cpython_text_def ascii_def le_bytes_numeral char_of_eq_iff)

lemma handle_file_request_same_root:
  assumes "\<forall>name. sep \<notin> set name \<longrightarrow>
             fs' (os_path_join (data_dir self) name) = fs (os_path_join (data_dir self) name)"
  shows "handle_file_request rt fs' self sock data = handle_file_request rt fs self sock data"
  by (simp add: handle_file_request_def file_request_try_same_root [OF assms])

lemma shared_files_join:
  assumes "sep \<notin> set name"
  shows "os_path_join (data_dir (FileShareServer_init shared_files)) name
           \<noteq> ascii ''/etc/passwd''"
  using os_path_join_plain [OF assms, of shared_files]
  by (simp add: FileShareServer_init_def shared_files_def ascii_def sep_def)

lemma request_passwd_not_found:
  "handle_file_request cpython Map.empty (FileShareServer_init shared_files) (incoming [])
     request_passwd
   = (incoming [],
      Inr ([CHR 0x06, CHR 0x02, CHR 0x00, CHR 0x00, CHR 0x20, CHR 0x00, CHR 0x00, CHR 0x00]
           @ ''File not found: ../../etc/passwd''))"
proof -
  let ?len = "[CHR 0x10, CHR 0x00, CHR 0x00, CHR 0x00]"
  have d: "bytes_decode (take (le_nat ?len) ''../../etc/passwd'')
             = Inr (ascii ''../../etc/passwd'')"
    using bytes_decode_ascii [of "''../../etc/passwd''"] by simp
  have "file_request_try cpython Map.empty (FileShareServer_init shared_files) (incoming [])
          (CHR 0x02 # ?len @ ''../../etc/passwd'')
        = (incoming [],
           error_frame 2 (''File not found: '' @ take (le_nat ?len) ''../../etc/passwd''))"
    by (rule file_request_try_missing [OF _ d]) (simp_all add: os_path_isfile_def)
  moreover have "error_frame 2 (''File not found: '' @ ''../../etc/passwd'')
        = Inr ([CHR 0x06, CHR 0x02, CHR 0x00, CHR 0x00, CHR 0x20, CHR 0x00, CHR 0x00, CHR 0x00]
               @ ''File not found: ../../etc/passwd'')"
    using error_frame_eq [of 2 "''File not found: '' @ ''../../etc/passwd''"]
    by (simp add: le_bytes_numeral char_of_eq_iff)
  ultimately show ?thesis
    by (simp add: handle_file_request_def request_passwd_def)
qed

lemma utf8_decode_ascii_run:
  "a < 0x80 \<Longrightarrow>
   utf8_decode (replicate n a @ rest) =
     (case utf8_decode rest of Inl e \<Rightarrow> Inl e | Inr s \<Rightarrow> Inr (replicate n a @ s))"
  by (induction n) (simp_all split: sum.split)

lemma file_request_try_undecodable:
  assumes "length len_field = 4"
    and "bytes_decode (take (le_nat len_field) body) = Inl e"
  shows "file_request_try rt fs self sock (tag # len_field @ body) = (sock, Inl e)"
  unfolding file_request_try_def file_request_fields [OF assms(1)]
  using assms(2) by simp

lemma request_long_received:
  "take 1024 request_long =
     CHR 0x02 # [CHR 0xFC, CHR 0x03, CHR 0x00, CHR 0x00] @ (replicate 1018 (CHR ''a'') @ [CHR 0xC3])"
  by (simp add: request_long_def)

lemma request_long_name:
  "bytes_decode (drop 5 request_long) = Inr (replicate 1018 97 @ [233])"
  using utf8_decode_ascii_run [of 97 1018 "[0xC3, 0xA9]"]
  by (simp add: request_long_def bytes_decode_def utf8_cont_def)

lemma request_long_cut:
  "bytes_decode (take (le_nat [CHR 0xFC, CHR 0x03, CHR 0x00, CHR 0x00])
                   (replicate 1018 (CHR ''a'') @ [CHR 0xC3])) = Inl UnicodeDecodeError"
  using utf8_decode_ascii_run [of 97 1018 "[0xC3]"]
  by (simp add: bytes_decode_def)

lemma except_reply_decode:
  "except_reply cpython 3 UnicodeDecodeError =
     Inr ([CHR 0x06, CHR 0x03, CHR 0x00, CHR 0x00, CHR 0x4D, CHR 0x00, CHR 0x00, CHR 0x00]
          @ [CHR 0x27] @ ''utf-8'' @ [CHR 0x27] @ '' codec can'' @ [CHR 0x27]
          @ ''t decode byte 0xc3 in position 1018: unexpected end of data'')"
  using except_reply_ascii [of cpython UnicodeDecodeError
      "[CHR 0x27] @ ''utf-8'' @ [CHR 0x27] @ '' codec can'' @ [CHR 0x27]
          @ ''t decode byte 0xc3 in position 1018: unexpected end of data''" 3]
  by (simp add: py_str_def cpython_def cpython_text_def ascii_def le_bytes_numeral char_of_eq_iff)

lemma zlib_rejects_abc: "zlib_decompress rt ''abc'' = Inl ZlibError"
  by (simp add: zlib_decompress_def zlib_header_ok_def)

lemma zlib_rejects_x: "zlib_decompress rt ''x'' = Inl ZlibError"
  by (simp add: zlib_decompress_def zlib_header_ok_def)

section \<open>Claims about the chunking engine and the codec\<close>

lemma split_file_eq:
  "0 < chunk_size self \<Longrightarrow>
   split_file self d =
     Inr (map (\<lambda>k. slice d (k * chunk_size self) (k * chunk_size self + chunk_size self))
            [0 ..< (length d + chunk_size self - 1) div chunk_size self])"
  by (simp add: split_file_def py_range_def foldl_append_slices comp_def)

text \<open>
  Claim C2. For every byte sequence \<open>d\<close> and every positive chunk size,
  \<open>split_file\<close> returns chunks (it does not raise) and \<open>reassemble_file\<close> of these
  chunks is \<open>d\<close> again; with chunk size 4096 an input of 10000 bytes is split into
  chunks of 4096, 4096 and 1808 bytes.
\<close>

theorem split_then_reassemble:
  assumes "0 < chunk_size self"
  shows "\<exists>chunks. split_file self d = Inr chunks \<and> reassemble_file self chunks = d \<and>
           (chunk_size self = 4096 \<and> length d = 10000 \<longrightarrow>
              map length chunks = [4096, 4096, 1808])"
proof -
  let ?s = "chunk_size self"
  let ?chunks = "map (\<lambda>k. slice d (k * ?s) (k * ?s + ?s)) [0 ..< (length d + ?s - 1) div ?s]"
  have split: "split_file self d = Inr ?chunks"
    using assms by (rule split_file_eq)
  have join: "reassemble_file self ?chunks = d"
    using assms by (simp only: reassemble_file_def concat_slices)
  have lens: "map length ?chunks = [4096, 4096, 1808]"
    if "?s = 4096" and "length d = 10000"
  proof -
    have "[0 ..< (10000 + 4096 - 1) div 4096] = [0, 1, 2::nat]"
      by (simp add: upt_rec)
    then show ?thesis
      using that by (simp add: slice_def)
  qed
  show ?thesis
  proof (intro exI conjI impI)
    show "split_file self d = Inr ?chunks" by (rule split)
    show "reassemble_file self ?chunks = d" by (rule join)
    show "map length ?chunks = [4096, 4096, 1808]"
      if "chunk_size self = 4096 \<and> length d = 10000"
      using that lens by blast
  qed
qed

theorem split_then_reassemble_witness:
  "0 < chunk_size (FileTransferProtocol_init MEDIUM True) \<and>
   (\<exists>chunks. split_file (FileTransferProtocol_init MEDIUM True) (replicate 10000 (CHR ''a''))
                = Inr chunks \<and>
      reassemble_file (FileTransferProtocol_init MEDIUM True) chunks
        = replicate 10000 (CHR ''a'') \<and>
      map length chunks = [4096, 4096, 1808])"
  using split_then_reassemble
          [of "FileTransferProtocol_init MEDIUM True" "replicate 10000 (CHR ''a'')"]
  by (simp add: FileTransferProtocol_init_def)

text \<open>
  Claim C1. Decoding an encoded message should give the message back; for chunks,
  \<open>parse_chunk (create_chunk index data compress)\<close> should be
  \<open>(index, data, compress)\<close>. The code does not do this: whatever \<open>create_chunk\<close>
  returns, \<open>parse_chunk\<close> raises \<open>struct.error\<close> on it, because it unpacks the 14
  bytes \<open>message[1:15]\<close> with the format \<open>'IBBq'\<close>, which needs 16, while
  \<open>create_chunk\<close> packed a 24-byte header with \<open>'BIIBq'\<close>.
\<close>

theorem parse_chunk_rejects_create_chunk:
  assumes "create_chunk rt chunk_index data compress = Inr message"
  shows "parse_chunk rt' message = Inl StructError"
proof -
  from create_chunk_tag [OF assms] obtain rest where "message = CHR 0x04 # rest" ..
  then show ?thesis
    by (simp add: parse_chunk_cases)
qed

lemma create_chunk_abc: "create_chunk cpython 0 ''abc'' False = Inr chunk_abc"
  unfolding chunk_abc_def by code_simp

theorem parse_chunk_rejects_create_chunk_witness:
  "create_chunk cpython 0 ''abc'' False = Inr chunk_abc \<and>
   parse_chunk cpython chunk_abc = Inl StructError"
  using parse_chunk_rejects_create_chunk [OF create_chunk_abc, of cpython] create_chunk_abc
  by simp

text \<open>
  Claim C6. A decoder should fail exactly on malformed buffers: too short, unknown type
  tag, or a declared payload length that differs from what follows the header. The code
  does not do this: \<open>parse_chunk\<close> fails on every buffer, the well-formed ones
  included, with \<open>ValueError\<close> when the first byte is not the tag of \<open>CHUNK_DATA\<close>
  and with \<open>struct.error\<close> otherwise.
\<close>

theorem parse_chunk_rejects_every_buffer:
  "parse_chunk rt message = Inl StructError \<or>
   (\<exists>text. parse_chunk rt message = Inl (ValueError text))"
  by (simp add: parse_chunk_cases split: list.split)

section \<open>Claims about the session\<close>

text \<open>
  Claim C3, amended. A session reads one message. When that message is a ChunkData
  message (its first byte is 0x04), the server sends at most one reply, a ChunkAck or an
  Error message, closes the connection and leaves the file system as it was: no chunk is
  accumulated, nothing is reassembled, verified or persisted.
\<close>

theorem upload_session_keeps_nothing:
  assumes "take 1024 (inbox (connection sys)) = CHR 0x04 # rest"
  shows "disk (handle_client rt sys client_id) = disk sys \<and>
         closed (connection (handle_client rt sys client_id)) \<and>
         (sent (connection (handle_client rt sys client_id)) = sent (connection sys) \<or>
          (\<exists>t. sent (connection (handle_client rt sys client_id))
                 = sent (connection sys) @ [CHR 0x05 # t]) \<or>
          (\<exists>t. sent (connection (handle_client rt sys client_id))
                 = sent (connection sys) @ [CHR 0x06 # t]))"
  using assms by (rule handle_client_upload)

theorem upload_session_keeps_nothing_witness:
  "take 1024 (inbox (connection (session Map.empty chunk_abc))) = CHR 0x04 # tl chunk_abc \<and>
   disk (handle_client cpython (session Map.empty chunk_abc) 1) = Map.empty \<and>
   closed (connection (handle_client cpython (session Map.empty chunk_abc) 1)) \<and>
   (sent (connection (handle_client cpython (session Map.empty chunk_abc) 1)) = [] \<or>
    (\<exists>t. sent (connection (handle_client cpython (session Map.empty chunk_abc) 1))
           = [CHR 0x05 # t]) \<or>
    (\<exists>t. sent (connection (handle_client cpython (session Map.empty chunk_abc) 1))
           = [CHR 0x06 # t]))"
proof -
  have h: "take 1024 (inbox (connection (session Map.empty chunk_abc))) = CHR 0x04 # tl chunk_abc"
    by (simp add: session_def incoming_def chunk_abc_def)
  from upload_session_keeps_nothing [OF h, of cpython 1] h show ?thesis
    by (simp add: session_def incoming_def)
qed

text \<open>
  Claim C3 as stated (chunks accumulated, the reassembled result persisted, the session
  Complete) fails on the upload of the three bytes \<open>abc\<close> in one chunk: the session
  answers with an Error message of code 4, closes, and the file system is still empty.
\<close>

theorem upload_is_answered_with_error_and_dropped:
  "create_chunk cpython 0 ''abc'' False = Inr chunk_abc \<and>
   sent (connection (handle_client cpython (session Map.empty chunk_abc) 1)) =
     [[CHR 0x06, CHR 0x04, CHR 0x00, CHR 0x00, CHR 0x24, CHR 0x00, CHR 0x00, CHR 0x00]
      @ ''unpack requires a buffer of 16 bytes''] \<and>
   closed (connection (handle_client cpython (session Map.empty chunk_abc) 1)) \<and>
   disk (handle_client cpython (session Map.empty chunk_abc) 1) = Map.empty"
proof -
  have "take 1024 (inbox (connection (session Map.empty chunk_abc))) = CHR 0x04 # tl chunk_abc"
    by (simp add: session_def incoming_def chunk_abc_def)
  from process_chunk_upload [OF this]
  have "sent (connection (handle_client cpython (session Map.empty chunk_abc) 1)) =
     [[CHR 0x06, CHR 0x04, CHR 0x00, CHR 0x00, CHR 0x24, CHR 0x00, CHR 0x00, CHR 0x00]
      @ ''unpack requires a buffer of 16 bytes'']"
    by (simp add: handle_client_def handle_chunk_upload_tagged except_reply_unpack
        sendall_def close_def session_def incoming_def)
  moreover have "create_chunk cpython 0 ''abc'' False = Inr chunk_abc"
    using create_chunk_abc by (simp add: chunk_abc_def)
  ultimately show ?thesis
    using handle_client_frame [of cpython "session Map.empty chunk_abc" 1]
    by (simp add: session_def)
qed

text \<open>
  Claim C5, amended. On a Handshake message (first byte 0x01) the server replies with its
  own Handshake, which carries the version 1.0.0, and closes the connection, whatever
  version the peer advertised; the version is not validated and no Error is sent.
\<close>

theorem handshake_reply_ignores_version:
  assumes "take 1024 (inbox (connection sys)) = CHR 0x01 # rest"
    and "protocol_version (protocol (server sys)) = get_version"
  shows "sent (connection (handle_client rt sys client_id)) =
           sent (connection sys) @ [[CHR 0x01, CHR 0x05, CHR 0x00, CHR 0x00, CHR 0x00] @ ''1.0.0''] \<and>
         closed (connection (handle_client rt sys client_id)) \<and>
         disk (handle_client rt sys client_id) = disk sys"
  using assms by (rule handle_client_handshake)

theorem handshake_reply_ignores_version_witness:
  "take 1024 (inbox (connection (session Map.empty handshake_2_0_0)))
     = CHR 0x01 # tl handshake_2_0_0 \<and>
   protocol_version (protocol (server (session Map.empty handshake_2_0_0))) = get_version \<and>
   sent (connection (handle_client cpython (session Map.empty handshake_2_0_0) 7))
     = [[CHR 0x01, CHR 0x05, CHR 0x00, CHR 0x00, CHR 0x00] @ ''1.0.0''] \<and>
   closed (connection (handle_client cpython (session Map.empty handshake_2_0_0) 7))"
  using handshake_reply_ignores_version [OF session_handshake [of Map.empty], of cpython 7]
    session_handshake [of Map.empty]
  by (simp add: session_def incoming_def)

text \<open>
  Claim C5 as stated (an incompatible major version is answered with an Error) fails on
  the Handshake that \<open>create_handshake("2.0.0")\<close> builds: the reply is the server's
  Handshake.
\<close>

theorem handshake_version_2_gets_handshake:
  "create_handshake (ascii ''2.0.0'') = Inr handshake_2_0_0 \<and>
   sent (connection (handle_client cpython (session Map.empty handshake_2_0_0) 1))
     = [[CHR 0x01, CHR 0x05, CHR 0x00, CHR 0x00, CHR 0x00] @ ''1.0.0'']"
  using handle_client_handshake [OF session_handshake [of Map.empty], of cpython 1]
    create_handshake_2_0_0
  by (simp add: session_def incoming_def)

text \<open>
  Claim C7, amended. A session reads once, at most 1024 bytes. When what it reads is a
  FileRequest as \<open>_handle_file_request\<close> reads it (the tag 0x02, a four-byte length
  and the UTF-8 name) whose name, as far as it was received, decodes and resolves to a
  path that is not a regular file, the session sends exactly one message, the Error
  message with code 2 and the text \<open>File not found: \<close> followed by the name, and
  closes the connection; no ChunkData message is sent.
\<close>

theorem missing_file_gets_file_not_found:
  assumes "take 1024 (inbox (connection sys)) = CHR 0x02 # len_field @ body"
    and "length len_field = 4"
    and "bytes_decode (take (le_nat len_field) body) = Inr filename"
    and "\<not> os_path_isfile (disk sys)
            (os_path_join (data_dir (server sys)) (basename filename))"
  shows "sent (connection (handle_client rt sys client_id)) =
           sent (connection sys) @
             [CHR 0x06 # CHR 0x02 # CHR 0x00 # CHR 0x00 #
                le_bytes 4 (length (''File not found: '' @ take (le_nat len_field) body)) @
                ''File not found: '' @ take (le_nat len_field) body] \<and>
         closed (connection (handle_client rt sys client_id))"
  using assms by (rule handle_client_missing_file)

theorem missing_file_gets_file_not_found_witness:
  "take 1024 (inbox (connection (session Map.empty request_a_txt)))
     = CHR 0x02 # [CHR 0x05, CHR 0x00, CHR 0x00, CHR 0x00] @ ''a.txt'' \<and>
   length [CHR 0x05, CHR 0x00, CHR 0x00, CHR 0x00] = 4 \<and>
   bytes_decode (take (le_nat [CHR 0x05, CHR 0x00, CHR 0x00, CHR 0x00]) ''a.txt'')
     = Inr (ascii ''a.txt'') \<and>
   \<not> os_path_isfile (disk (session Map.empty request_a_txt))
       (os_path_join (data_dir (server (session Map.empty request_a_txt)))
          (basename (ascii ''a.txt''))) \<and>
   sent (connection (handle_client cpython (session Map.empty request_a_txt) 1)) =
     [[CHR 0x06, CHR 0x02, CHR 0x00, CHR 0x00, CHR 0x15, CHR 0x00, CHR 0x00, CHR 0x00]
      @ ''File not found: a.txt''] \<and>
   closed (connection (handle_client cpython (session Map.empty request_a_txt) 1))"
proof -
  let ?sys = "session Map.empty request_a_txt"
  have a: "take 1024 (inbox (connection ?sys))
             = CHR 0x02 # [CHR 0x05, CHR 0x00, CHR 0x00, CHR 0x00] @ ''a.txt''"
    by (simp add: session_def incoming_def request_a_txt_def)
  have b: "length [CHR 0x05, CHR 0x00, CHR 0x00, CHR 0x00] = 4"
    by simp
  have c: "bytes_decode (take (le_nat [CHR 0x05, CHR 0x00, CHR 0x00, CHR 0x00]) ''a.txt'')
             = Inr (ascii ''a.txt'')"
    using bytes_decode_ascii [of "''a.txt''"] by simp
  have d: "\<not> os_path_isfile (disk ?sys)
             (os_path_join (data_dir (server ?sys)) (basename (ascii ''a.txt'')))"
    by (simp add: session_def os_path_isfile_def)
  from missing_file_gets_file_not_found [OF a b c d, of cpython 1] a b c d show ?thesis
    by (simp add: session_def incoming_def le_bytes_numeral char_of_eq_iff)
qed

text \<open>
  Claim C7 as stated (every FileRequest naming a missing file is answered with the
  file-not-found Error) fails on a well-formed FileRequest of 1025 bytes for a missing
  file: \<open>recv(1024)\<close> cuts the name inside its last character, what is left does not
  decode, and the session answers with the Error message of code 3.
\<close>

theorem long_missing_name_gets_error_3:
  "length request_long = 1025 \<and>
   bytes_decode (drop 5 request_long) = Inr (replicate 1018 97 @ [233]) \<and>
   sent (connection (handle_client cpython (session Map.empty request_long) 1)) =
     [[CHR 0x06, CHR 0x03, CHR 0x00, CHR 0x00, CHR 0x4D, CHR 0x00, CHR 0x00, CHR 0x00]
      @ [CHR 0x27] @ ''utf-8'' @ [CHR 0x27] @ '' codec can'' @ [CHR 0x27]
      @ ''t decode byte 0xc3 in position 1018: unexpected end of data''] \<and>
   closed (connection (handle_client cpython (session Map.empty request_long) 1))"
proof -
  let ?reply = "[CHR 0x06, CHR 0x03, CHR 0x00, CHR 0x00, CHR 0x4D, CHR 0x00, CHR 0x00, CHR 0x00]
      @ [CHR 0x27] @ ''utf-8'' @ [CHR 0x27] @ '' codec can'' @ [CHR 0x27]
      @ ''t decode byte 0xc3 in position 1018: unexpected end of data''"
  have r: "take 1024 (inbox (incoming request_long)) =
     CHR 0x02 # [CHR 0xFC, CHR 0x03, CHR 0x00, CHR 0x00] @ (replicate 1018 (CHR ''a'') @ [CHR 0xC3])"
    using request_long_received by (simp add: incoming_def)
  have t: "file_request_try cpython fs self sock
             (CHR 0x02 # [CHR 0xFC, CHR 0x03, CHR 0x00, CHR 0x00]
                @ (replicate 1018 (CHR ''a'') @ [CHR 0xC3]))
           = (sock, Inl UnicodeDecodeError)" for fs self sock
    by (rule file_request_try_undecodable [OF _ request_long_cut]) simp
  have h: "handle_file_request cpython fs self sock
             (CHR 0x02 # [CHR 0xFC, CHR 0x03, CHR 0x00, CHR 0x00]
                @ (replicate 1018 (CHR ''a'') @ [CHR 0xC3]))
           = (sock, except_reply cpython 3 UnicodeDecodeError)" for fs self sock
    by (simp only: handle_file_request_def t prod.case sum.case)
  have p: "process_client_request cpython fs self (incoming request_long)
           = ((incoming request_long)\<lparr>inbox := drop 1024 (inbox (incoming request_long))\<rparr>,
              Some ?reply)" for fs self
    using h by (simp add: process_file_request [OF r] except_reply_decode)
  have "sent (incoming request_long) = []"
    by (simp add: incoming_def)
  then have "sent (connection (handle_client cpython (session Map.empty request_long) 1))
               = [?reply]"
    by (simp add: handle_client_def session_def p sendall_def close_def)
  moreover have "length request_long = 1025"
    by (simp add: request_long_def)
  ultimately show ?thesis
    using request_long_name handle_client_frame [of cpython "session Map.empty request_long" 1]
    by simp
qed

text \<open>
  Claim C4. For a FileRequest naming an existing file the server should send the chunks
  and then a Complete message. The code does not send Complete: the \<open>try\<close> block of
  \<open>_handle_file_request\<close> always ends in an exception when the file exists (after the
  chunks are sent it evaluates \<open>ProtocolMessage.create_message\<close>, which is not
  defined), so the handler returns what its \<open>except\<close> clause builds, the Error message
  with code 3.
\<close>

theorem file_request_for_existing_file_raises:
  assumes "length len_field = 4"
    and "bytes_decode (take (le_nat len_field) body) = Inr filename"
    and "os_path_isfile fs (os_path_join (data_dir self) (basename filename))"
  shows "\<exists>sock' e. handle_file_request rt fs self sock (CHR 0x02 # len_field @ body)
                     = (sock', except_reply rt 3 e)"
  using assms by (rule handle_file_request_existing)

theorem file_request_for_existing_file_raises_witness:
  "length [CHR 0x09, CHR 0x00, CHR 0x00, CHR 0x00] = 4 \<and>
   bytes_decode (take (le_nat [CHR 0x09, CHR 0x00, CHR 0x00, CHR 0x00]) ''empty.txt'')
     = Inr (ascii ''empty.txt'') \<and>
   os_path_isfile [ascii ''./shared_files/empty.txt'' \<mapsto> RegularFile []]
     (os_path_join (data_dir (FileShareServer_init shared_files))
        (basename (ascii ''empty.txt''))) \<and>
   handle_file_request cpython [ascii ''./shared_files/empty.txt'' \<mapsto> RegularFile []]
     (FileShareServer_init shared_files) (incoming [])
     (CHR 0x02 # [CHR 0x09, CHR 0x00, CHR 0x00, CHR 0x00] @ ''empty.txt'')
     = (incoming [],
        Inr ([CHR 0x06, CHR 0x03, CHR 0x00, CHR 0x00, CHR 0x3F, CHR 0x00, CHR 0x00, CHR 0x00]
             @ ''type object '' @ [CHR 0x27] @ ''ProtocolMessage'' @ [CHR 0x27]
             @ '' has no attribute '' @ [CHR 0x27] @ ''create_message'' @ [CHR 0x27]))"
proof -
  let ?fs = "[ascii ''./shared_files/empty.txt'' \<mapsto> RegularFile []]"
  let ?self = "FileShareServer_init shared_files"
  let ?len = "[CHR 0x09, CHR 0x00, CHR 0x00, CHR 0x00]"
  have a: "length ?len = 4"
    by simp
  have b: "bytes_decode (take (le_nat ?len) ''empty.txt'') = Inr (ascii ''empty.txt'')"
    using bytes_decode_ascii [of "''empty.txt''"] by simp
  have c: "os_path_isfile ?fs (os_path_join (data_dir ?self) (basename (ascii ''empty.txt'')))"
    by (simp add: path_of_empty_txt os_path_isfile_def)
  from file_request_for_existing_file_raises [OF a b c, of cpython "incoming []"]
  obtain sock' e where
    r: "handle_file_request cpython ?fs ?self (incoming []) (CHR 0x02 # ?len @ ''empty.txt'')
          = (sock', except_reply cpython 3 e)"
    by blast
  have "os_path_exists ?fs (ascii ''./shared_files/empty.txt'')"
       "read_file ?fs (ascii ''./shared_files/empty.txt'') = Inr []"
    by (simp_all add: os_path_exists_def read_file_def)
  moreover have "split_file (protocol ?self) [] = Inr []"
    by (simp add: split_file_def py_range_def FileShareServer_init_def
        FileTransferProtocol_init_def)
  ultimately have "file_request_try cpython ?fs ?self (incoming [])
                     (CHR 0x02 # ?len @ ''empty.txt'') = (incoming [], Inl AttributeError)"
    unfolding file_request_try_def file_request_fields [OF a]
    using b c by (simp add: path_of_empty_txt enumerate_eq_zip)
  then have "handle_file_request cpython ?fs ?self (incoming [])
               (CHR 0x02 # ?len @ ''empty.txt'')
             = (incoming [], except_reply cpython 3 AttributeError)"
    by (simp add: handle_file_request_def)
  with r a b c show ?thesis
    by (simp only: except_reply_attribute simp_thms)
qed

text \<open>
  Claim C9. The path that \<open>_handle_file_request\<close> resolves a requested name to is the
  storage root joined with the base name, which contains no separator; so the handler
  behaves the same on two file systems that agree on the paths made of the storage root
  and a separator-free name: what lies elsewhere is never read.
\<close>

theorem file_request_stays_in_storage_root:
  assumes "\<forall>name. sep \<notin> set name \<longrightarrow>
             fs' (os_path_join (data_dir self) name) = fs (os_path_join (data_dir self) name)"
  shows "handle_file_request rt fs' self sock data = handle_file_request rt fs self sock data \<and>
         sep \<notin> set (basename filename) \<and>
         os_path_join (data_dir self) (basename filename) =
           data_dir self @ (if data_dir self = [] \<or> last (data_dir self) = sep then [] else [sep])
             @ basename filename"
  using handle_file_request_same_root [OF assms] basename_no_sep
    os_path_join_plain [OF basename_no_sep]
  by simp

theorem file_request_stays_in_storage_root_witness:
  "handle_file_request cpython [ascii ''/etc/passwd'' \<mapsto> RegularFile ''root:x:0:0'']
       (FileShareServer_init shared_files) (incoming []) request_passwd
     = (incoming [],
        Inr ([CHR 0x06, CHR 0x02, CHR 0x00, CHR 0x00, CHR 0x20, CHR 0x00, CHR 0x00, CHR 0x00]
             @ ''File not found: ../../etc/passwd'')) \<and>
   sep \<notin> set (basename (ascii ''../../etc/passwd''))"
proof -
  have h: "\<forall>name. sep \<notin> set name \<longrightarrow>
      [ascii ''/etc/passwd'' \<mapsto> RegularFile ''root:x:0:0'']
         (os_path_join (data_dir (FileShareServer_init shared_files)) name)
      = Map.empty (os_path_join (data_dir (FileShareServer_init shared_files)) name)"
    using shared_files_join by simp
  note r = file_request_stays_in_storage_root
             [OF h, of cpython "incoming []" request_passwd "ascii ''../../etc/passwd''"]
  from r [THEN conjunct1] request_passwd_not_found
  have "handle_file_request cpython [ascii ''/etc/passwd'' \<mapsto> RegularFile ''root:x:0:0'']
          (FileShareServer_init shared_files) (incoming []) request_passwd
        = (incoming [],
           Inr ([CHR 0x06, CHR 0x02, CHR 0x00, CHR 0x00, CHR 0x20, CHR 0x00, CHR 0x00, CHR 0x00]
                @ ''File not found: ../../etc/passwd''))"
    by (rule trans)
  then show ?thesis
    by (intro conjI r [THEN conjunct2, THEN conjunct1])
qed

section \<open>Claims about decompression\<close>

text \<open>
  Claim C8, amended. \<open>decompress_chunk\<close> takes the payload only, no original length.
  With compression enabled, a payload that \<open>zlib.decompress\<close> rejects, as it does
  truncated and corrupted ones, is returned unchanged and no error is signalled.
\<close>

theorem decompress_chunk_returns_rejected_payload:
  assumes "compression self" and "zlib_decompress rt chunk = Inl ZlibError"
  shows "decompress_chunk rt self chunk = Inr chunk"
  using assms by (rule decompress_chunk_zlib_error)

theorem decompress_chunk_returns_rejected_payload_witness:
  "compression (FileTransferProtocol_init MEDIUM True) \<and>
   zlib_decompress cpython ''abc'' = Inl ZlibError \<and>
   decompress_chunk cpython (FileTransferProtocol_init MEDIUM True) ''abc'' = Inr ''abc''"
proof -
  have c: "compression (FileTransferProtocol_init MEDIUM True)"
    by (simp add: FileTransferProtocol_init_def)
  from decompress_chunk_returns_rejected_payload [OF c zlib_rejects_abc [of cpython]] c
    zlib_rejects_abc [of cpython]
  show ?thesis by simp
qed

text \<open>
  Claim C8 as stated (a truncated payload makes decompression fail with an integrity
  error) fails on a compressed payload cut down to its first byte: \<open>decompress_chunk\<close>
  returns that byte as the data.
\<close>

theorem truncated_payload_returned_without_error:
  "zlib_decompress cpython ''x'' = Inl ZlibError \<and>
   decompress_chunk cpython (FileTransferProtocol_init MEDIUM True) ''x'' = Inr ''x''"
  using decompress_chunk_zlib_error [OF _ zlib_rejects_x, of "FileTransferProtocol_init MEDIUM True" cpython]
    zlib_rejects_x [of cpython]
  by (simp add: FileTransferProtocol_init_def)



end
